theory Spec2Isabelle
  imports Main "HOL-Library.AList"
begin

section \<open>The resource actor of \<^verbatim>\<open>src/worker/context/store.ts\<close>\<close>

text \<open>
  The development embeds \<^verbatim>\<open>createResourceStore\<close> and the class \<^verbatim>\<open>ResourcesStore\<close>
  (the second module of \<^verbatim>\<open>store.ts\<close>, lines 313--722). Every asynchronous method
  becomes a function from the state to an outcome and the state afterwards:
  \<open>Inl e\<close> is a thrown value, and the state is returned on both branches, because the
  writes made before a \<^verbatim>\<open>throw\<close> stay.

  What the module imports and \<^verbatim>\<open>src/\<close> does not hold is a parameter: the scraper, the
  page-details stage, the safety check, the integration detectors, the id generator and
  the clock are fields of \<open>Env\<close>; the three stores and the two in-memory indices are
  fields of \<open>State\<close>. The scraper, the page details and the safety check may throw.
  Of the stores, the content store may reject a write (it does when the sidecar is
  larger than the 1024 bytes it allows for metadata), which \<open>CONTENT_rejects\<close> tells,
  and \<^verbatim>\<open>storage.put(entries)\<close> rejects more than 128 pairs; the other calls of the
  stores, the integration detectors and the logger are taken not to throw.

  The runtime delivers one request at a time to the actor, and the model runs one
  method at a time. A promise that a method starts and does not await is run where it
  is started (\<open>detached\<close>): its write to the actor's storage does happen there, its
  write to the content store happens later in the runtime, and no property below
  depends on when.
\<close>

subsection \<open>Data\<close>

text \<open>
  \<^verbatim>\<open>ResourceSummary\<close>, \<^verbatim>\<open>Page\<close>, \<^verbatim>\<open>Resource\<close> and \<^verbatim>\<open>ResourceMetadata\<close> are declared in
  \<^verbatim>\<open>../types\<close>; the fields are the ones the object literals of lines 371--380, 402--411,
  437--449 and 450--461 read and write. \<open>id'\<close> and \<open>image'\<close> stand for \<^verbatim>\<open>id\<close> and
  \<^verbatim>\<open>image\<close>. A string is the list of its code units. \<open>bookmarked\<close> is an array
  (\<^verbatim>\<open>resource.bookmarked.length\<close>, line 458), so \<^verbatim>\<open>resource.bookmarked ?? []\<close> is the
  array itself.

  \<open>viewCounts\<close> is a JavaScript number holding a non-negative integer; the only
  arithmetic on it is \<^verbatim>\<open>viewCounts + 1\<close> (line 576), which \<open>js_plus_one\<close> computes as a
  double does: exactly below \<open>2^53\<close>, to the neighbour with the even significand between
  \<open>2^53\<close> and \<open>2^54\<close> (where doubles are two apart and the sum lies half way), and to
  the number itself from \<open>2^54\<close> on (where doubles are at least four apart).
\<close>

record ResourceSummary =
  id' :: string
  url :: string
  bookmarked :: "string list"
  viewCounts :: nat
  createdAt :: string
  createdBy :: string
  updatedAt :: string
  updatedBy :: string

record Page =
  page_url :: string
  page_category :: string
  page_author :: "string option"
  page_title :: string
  page_description :: "string option"
  page_image :: "string option"
  page_video :: "string option"
  page_isSafe :: bool
  page_dependencies :: "(string \<times> string) list option"
  page_configs :: "string list option"
  page_createdAt :: string
  page_updatedAt :: string

record Resource = ResourceSummary +
  category :: string
  author :: "string option"
  title :: string
  description :: "string option"
  image' :: "string option"
  video :: "string option"
  isSafe :: bool
  dependencies :: "(string \<times> string) list option"
  configs :: "string list option"
  integrations :: "string list"

record ResourceMetadata =
  md_id :: string
  md_url :: string
  md_category :: string
  md_author :: "string option"
  md_title :: string
  md_description :: "string option"
  md_viewCounts :: nat
  md_bookmarkCounts :: nat
  md_integrations :: "string list"
  md_createdAt :: string

datatype SubmissionStatus = INVALID | PUBLISHED | RESUBMITTED

record SubmissionResult =
  result_id :: "string option"
  result_status :: SubmissionStatus

text \<open>
  A thrown value is an \<^verbatim>\<open>Error\<close> object with its message, or any other value (the
  \<^verbatim>\<open>catch\<close> of \<^verbatim>\<open>fetch\<close> tells them apart with \<^verbatim>\<open>instanceof\<close>).
\<close>

datatype thrown = ErrorObj string | NonError string

text \<open>
  The durable key space of the actor holds summaries under their ids and the two index
  blobs under \<^verbatim>\<open>index/URL\<close> and \<^verbatim>\<open>index/PackageName\<close>. An index is a JavaScript object
  used as a dictionary: an association list in insertion order (\<^verbatim>\<open>Object.keys\<close>, line
  432, reads the order; keys that are array indices, which JavaScript lists first, and
  the properties every object inherits are left aside), assigned to with
  \<open>AList.update\<close> and read with \<open>map_of\<close>.
\<close>

type_synonym index = "(string \<times> string) list"

datatype stored = Summary ResourceSummary | Index index

text \<open>
  The trace records each write to a store, each rejection of a promise nobody awaits,
  and each update that is started on an object of another shape than a summary's
  (\<open>getResource\<close> below), in the order they happen.
\<close>

datatype event =
    StoragePut string
  | StoragePutEntries
  | PagePut string
  | ContentPut string
  | Unhandled thrown
  | UntypedUpdate

record State =
  storage :: "string \<rightharpoonup> stored"
  PAGE :: "string \<rightharpoonup> Page"
  CONTENT :: "string \<rightharpoonup> Resource \<times> ResourceMetadata"
  resourceIdByURL :: index
  resourceIdByPackageName :: index
  trace :: "event list"

text \<open>
  \<open>getPageDetails\<close> returns the object spread over the scraped page in
  \<^verbatim>\<open>{...page, ...pageDetails}\<close>: the function that overrides the fields it carries.
  \<open>now\<close> is the clock read in \<^verbatim>\<open>submit\<close> and \<^verbatim>\<open>refresh\<close>, \<open>now_created\<close> the one read
  in \<^verbatim>\<open>createResource\<close>. \<open>CONTENT_rejects key entry\<close> is the value with which
  \<^verbatim>\<open>CONTENT.put\<close> rejects the write of \<open>entry\<close> under \<open>key\<close>, if it does.
  \<open>refresh_untyped\<close> is explained with \<^verbatim>\<open>refresh\<close>.
\<close>

record Env =
  GOOGLE_API_KEY :: "string option"
  scrapeHTML :: "string \<Rightarrow> thrown + Page"
  getPageDetails :: "string \<Rightarrow> thrown + (Page \<Rightarrow> Page)"
  checkSafeBrowsingAPI :: "string \<Rightarrow> thrown + bool"
  getIntegrations :: "string list \<Rightarrow> string list \<Rightarrow> (string \<times> string) list \<Rightarrow> string list"
  getIntegrationsFromPage :: "Page \<Rightarrow> string list \<Rightarrow> string list"
  generateId :: string
  now :: string
  now_created :: string
  CONTENT_rejects :: "string \<Rightarrow> Resource \<times> ResourceMetadata \<Rightarrow> thrown option"
  refresh_untyped :: "(string \<times> string) list \<Rightarrow> thrown option"

subsection \<open>JavaScript values\<close>

text \<open>A string or \<^verbatim>\<open>null\<close> in a condition: \<^verbatim>\<open>null\<close>, \<^verbatim>\<open>undefined\<close> and \<^verbatim>\<open>''\<close> are falsy.\<close>

fun truthy :: "string option \<Rightarrow> bool" where
  "truthy None = False"
| "truthy (Some s) = (s \<noteq> [])"

text \<open>\<^verbatim>\<open>String.prototype.includes\<close>: \<open>u\<close> occurs in \<open>s\<close> as a substring.\<close>

fun starts_with :: "string \<Rightarrow> string \<Rightarrow> bool" where
  "starts_with s [] = True"
| "starts_with [] (c # u) = False"
| "starts_with (a # s) (c # u) = (a = c \<and> starts_with s u)"

fun js_includes :: "string \<Rightarrow> string \<Rightarrow> bool" where
  "js_includes [] u = (u = [])"
| "js_includes (a # s) u = (starts_with (a # s) u \<or> js_includes s u)"

definition js_plus_one :: "nat \<Rightarrow> nat" where
  "js_plus_one n =
     (if n < 2 ^ 53 then n + 1
      else if n < 2 ^ 54 \<and> odd (n div 2) then n + 2
      else n)"

text \<open>
  \<^verbatim>\<open>String.prototype.toUpperCase\<close> on the ASCII letters of a request method: a letter
  from \<^verbatim>\<open>a\<close> (97) to \<^verbatim>\<open>z\<close> (122) loses the bit of value 32.
\<close>

definition upper_char :: "char \<Rightarrow> char" where
  "upper_char c =
     (if 97 \<le> (of_char c :: nat) \<and> (of_char c :: nat) \<le> 122
      then (case c of Char b0 b1 b2 b3 b4 b5 b6 b7 \<Rightarrow> Char b0 b1 b2 b3 b4 False b6 b7)
      else c)"

definition toUpperCase :: "string \<Rightarrow> string" where
  "toUpperCase = map upper_char"

subsection \<open>The stores\<close>

definition storage_put :: "string \<Rightarrow> stored \<Rightarrow> State \<Rightarrow> State" where
  "storage_put k v s = s\<lparr>storage := (storage s)(k \<mapsto> v), trace := trace s @ [StoragePut k]\<rparr>"

text \<open>
  \<^verbatim>\<open>storage.put(entries)\<close> takes at most 128 pairs and rejects more; it writes the keys
  of its argument and leaves the others.
\<close>

definition too_many_pairs :: thrown where
  "too_many_pairs = ErrorObj ''Maximum number of pairs is 128''"

definition storage_put_entries ::
  "(string \<rightharpoonup> stored) \<Rightarrow> State \<Rightarrow> (thrown + unit) \<times> State" where
  "storage_put_entries d s =
     (if finite (dom d) \<and> card (dom d) \<le> 128
      then (Inr (), s\<lparr>storage := storage s ++ d, trace := trace s @ [StoragePutEntries]\<rparr>)
      else (Inl too_many_pairs, s))"

definition PAGE_put :: "string \<Rightarrow> Page \<Rightarrow> State \<Rightarrow> State" where
  "PAGE_put k v s = s\<lparr>PAGE := (PAGE s)(k \<mapsto> v), trace := trace s @ [PagePut k]\<rparr>"

definition CONTENT_put :: "string \<Rightarrow> Resource \<times> ResourceMetadata \<Rightarrow> State \<Rightarrow> State" where
  "CONTENT_put k v s = s\<lparr>CONTENT := (CONTENT s)(k \<mapsto> v), trace := trace s @ [ContentPut k]\<rparr>"

text \<open>
  \<^verbatim>\<open>storage.get<T>\<close> is a cast the compiler does not check. The in-memory indices of the
  model are typed: where an index key holds a summary, the object the source would use
  as a dictionary has an array and a number among its values, which the typed index
  cannot hold, and the read stops with a thrown value.
\<close>

definition ill_typed :: thrown where
  "ill_typed = ErrorObj ''stored value is not of the declared type''"

definition storage_get_index :: "string \<Rightarrow> State \<Rightarrow> thrown + index" where
  "storage_get_index k s =
     (case storage s k of
        None \<Rightarrow> Inr []
      | Some (Index ix) \<Rightarrow> Inr ix
      | Some (Summary r) \<Rightarrow> Inl ill_typed)"

text \<open>
  A promise that is not awaited: its effects happen, its rejection reaches nobody. The
  model runs the task where it is started.
\<close>

definition detached :: "(State \<Rightarrow> (thrown + 'a) \<times> State) \<Rightarrow> State \<Rightarrow> State" where
  "detached task s =
     (case task s of
        (Inl e, s') \<Rightarrow> s'\<lparr>trace := trace s' @ [Unhandled e]\<rparr>
      | (Inr r, s') \<Rightarrow> s')"

subsection \<open>\<^verbatim>\<open>createResourceStore\<close>\<close>

text \<open>Lines 344--351: the two indices are read from storage, \<^verbatim>\<open>?? {}\<close> when absent.\<close>

definition createResourceStore :: "State \<Rightarrow> thrown + State" where
  "createResourceStore s =
     (case storage_get_index ''index/URL'' s of
        Inl e \<Rightarrow> Inl e
      | Inr byURL \<Rightarrow>
          (case storage_get_index ''index/PackageName'' s of
             Inl e \<Rightarrow> Inl e
           | Inr byPackageName \<Rightarrow>
               Inr (s\<lparr>resourceIdByURL := byURL, resourceIdByPackageName := byPackageName\<rparr>)))"

text \<open>
  Lines 395--412. Whatever is stored under the key is truthy, and the object returned
  has the eight fields read off it. Read off a summary they make the summary
  (\<open>Typed\<close>). Read off an index, a dictionary of strings, each field is the string the
  index holds under the name of the field, or undefined: \<open>Untyped\<close> carries the fields
  that are defined, in the order of the literal.
\<close>

datatype fetched = Typed ResourceSummary | Untyped "(string \<times> string) list"

definition field_names :: "string list" where
  "field_names =
     [''id'', ''url'', ''bookmarked'', ''viewCounts'', ''createdAt'', ''createdBy'',
      ''updatedAt'', ''updatedBy'']"

definition untyped_object :: "index \<Rightarrow> (string \<times> string) list" where
  "untyped_object ix =
     List.map_filter (\<lambda>name. map_option (Pair name) (map_of ix name)) field_names"

definition getResource :: "string \<Rightarrow> State \<Rightarrow> fetched option" where
  "getResource resourceId s =
     (case storage s resourceId of
        None \<Rightarrow> None
      | Some (Summary resource) \<Rightarrow>
          Some (Typed \<lparr>id' = id' resource, url = url resource,
             bookmarked = bookmarked resource,
             viewCounts = viewCounts resource, createdAt = createdAt resource,
             createdBy = createdBy resource, updatedAt = updatedAt resource,
             updatedBy = updatedBy resource\<rparr>)
      | Some (Index ix) \<Rightarrow> Some (Untyped (untyped_object ix)))"

text \<open>
  An update (\<^verbatim>\<open>updateResource\<close>, \<^verbatim>\<open>updateResourceCache\<close>) that is started on an
  \<open>Untyped\<close> object calls the stores with undefined keys and writes values that have
  not the declared shapes. What the stores make of them is theirs to say; the typed
  stores of the model cannot hold such values. The model records that the update was
  started and follows it no further: the stores stay as they are.
\<close>

definition untyped_update :: "State \<Rightarrow> State" where
  "untyped_update s = s\<lparr>trace := trace s @ [UntypedUpdate]\<rparr>"

text \<open>Lines 432--436, 437--449 and 450--461 of \<^verbatim>\<open>updateResourceCache\<close>.\<close>

definition page_integrations :: "Env \<Rightarrow> Page \<Rightarrow> string list \<Rightarrow> string list" where
  "page_integrations env page packages =
     (if page_category page = ''package'' \<or> page_category page = ''repository''
      then getIntegrations env
             (case page_configs page of None \<Rightarrow> [] | Some c \<Rightarrow> c)
             packages
             (case page_dependencies page of None \<Rightarrow> [] | Some d \<Rightarrow> d)
      else getIntegrationsFromPage env page packages)"

definition build_resource :: "ResourceSummary \<Rightarrow> Page \<Rightarrow> string list \<Rightarrow> Resource" where
  "build_resource summary page ints =
     \<lparr>id' = id' summary, url = url summary, bookmarked = bookmarked summary,
      viewCounts = viewCounts summary, createdAt = createdAt summary,
      createdBy = createdBy summary, updatedAt = updatedAt summary,
      updatedBy = updatedBy summary,
      category = page_category page, author = page_author page, title = page_title page,
      description = page_description page, image' = page_image page,
      video = page_video page, isSafe = page_isSafe page,
      dependencies = page_dependencies page, configs = page_configs page,
      integrations = ints\<rparr>"

definition build_metadata :: "Resource \<Rightarrow> ResourceMetadata" where
  "build_metadata resource =
     \<lparr>md_id = id' resource, md_url = url resource, md_category = category resource,
      md_author = author resource, md_title = title resource,
      md_description = map_option (take 80) (description resource),
      md_viewCounts = viewCounts resource,
      md_bookmarkCounts = length (bookmarked resource),
      md_integrations = integrations resource, md_createdAt = createdAt resource\<rparr>"

text \<open>
  Lines 422--466; \<open>cache_entry\<close> is the Resource and the sidecar of lines 432--461.
  The awaited \<^verbatim>\<open>CONTENT.put\<close> of line 463 may reject, and then nothing is written.
\<close>

definition cache_entry ::
  "Env \<Rightarrow> ResourceSummary \<Rightarrow> Page \<Rightarrow> State \<Rightarrow> Resource \<times> ResourceMetadata" where
  "cache_entry env summary page s =
     (let packages = map fst (resourceIdByPackageName s);
          resource = build_resource summary page (page_integrations env page packages);
          metadata = build_metadata resource
      in (resource, metadata))"

definition updateResourceCache ::
  "Env \<Rightarrow> ResourceSummary \<Rightarrow> Page option \<Rightarrow> State \<Rightarrow> (thrown + unit) \<times> State" where
  "updateResourceCache env summary pageData s =
     (case (case pageData of Some p \<Rightarrow> Some p | None \<Rightarrow> PAGE s (url summary)) of
        None \<Rightarrow> (Inl (ErrorObj ''No page data found for the corresponding URL''), s)
      | Some page \<Rightarrow>
          (let entry = cache_entry env summary page s;
               key = ''resources/'' @ id' (fst entry)
           in case CONTENT_rejects env key entry of
                Some e \<Rightarrow> (Inl e, s)
              | None \<Rightarrow> (Inr (), CONTENT_put key entry s)))"

text \<open>Lines 414--420.\<close>

definition updateResource ::
  "Env \<Rightarrow> ResourceSummary \<Rightarrow> Page option \<Rightarrow> State \<Rightarrow> (thrown + unit) \<times> State" where
  "updateResource env resource page s =
     updateResourceCache env resource page (storage_put (id' resource) (Summary resource) s)"

text \<open>Lines 353--393; \<open>new_summary\<close> is the summary of lines 371--380.\<close>

definition new_summary :: "Env \<Rightarrow> Page \<Rightarrow> string \<Rightarrow> ResourceSummary" where
  "new_summary env page userId =
     (let ident = generateId env; now = now_created env in
      \<lparr>id' = ident, url = page_url page, bookmarked = [], viewCounts = 0,
       createdAt = now, createdBy = userId, updatedAt = now, updatedBy = userId\<rparr>)"

definition createResource ::
  "Env \<Rightarrow> Page \<Rightarrow> string \<Rightarrow> State \<Rightarrow> (thrown + SubmissionResult) \<times> State" where
  "createResource env page userId s =
     (if \<not> page_isSafe page then (Inr \<lparr>result_id = None, result_status = INVALID\<rparr>, s)
      else
        (let ident = generateId env in
         case updateResource env (new_summary env page userId) (Some page) s of
           (Inl e, s1) \<Rightarrow> (Inl e, s1)
         | (Inr u, s1) \<Rightarrow>
             (let s2 =
                (if page_category page = ''package''
                 then (let byPackageName =
                             AList.update (page_title page) ident (resourceIdByPackageName s1)
                       in storage_put ''index/PackageName'' (Index byPackageName)
                            (s1\<lparr>resourceIdByPackageName := byPackageName\<rparr>))
                 else s1)
              in (Inr \<lparr>result_id = Some ident, result_status = PUBLISHED\<rparr>, s2))))"

subsection \<open>The methods of the store\<close>

text \<open>
  Lines 471--493 of \<^verbatim>\<open>submit\<close>: the page comes from \<^verbatim>\<open>PAGE\<close>, or is scraped, merged and
  written there. Of the promises of a \<^verbatim>\<open>Promise.all\<close> the first of the array that
  rejects gives the thrown value.
\<close>

definition safe_check :: "Env \<Rightarrow> string \<Rightarrow> thrown + bool" where
  "safe_check env u =
     (if truthy (GOOGLE_API_KEY env) then checkSafeBrowsingAPI env u else Inr True)"

definition submit_page :: "Env \<Rightarrow> string \<Rightarrow> State \<Rightarrow> (thrown + Page) \<times> State" where
  "submit_page env u s =
     (case PAGE s u of
        Some page \<Rightarrow> (Inr page, s)
      | None \<Rightarrow>
          (case scrapeHTML env u of
             Inl e \<Rightarrow> (Inl e, s)
           | Inr scraped \<Rightarrow>
               (case getPageDetails env (page_url scraped) of
                  Inl e \<Rightarrow> (Inl e, s)
                | Inr pageDetails \<Rightarrow>
                    (case safe_check env (page_url scraped) of
                       Inl e \<Rightarrow> (Inl e, s)
                     | Inr safe \<Rightarrow>
                         (let page = (pageDetails scraped)
                                \<lparr>page_isSafe := safe, page_createdAt := now env,
                                 page_updatedAt := now env\<rparr>
                          in (Inr page, PAGE_put (page_url page) page s))))))"

text \<open>Lines 469--512.\<close>

definition submit ::
  "Env \<Rightarrow> string \<Rightarrow> string \<Rightarrow> State \<Rightarrow> (thrown + SubmissionResult) \<times> State" where
  "submit env userId u s =
     (case submit_page env u s of
        (Inl e, s1) \<Rightarrow> (Inl e, s1)
      | (Inr page, s1) \<Rightarrow>
          (let ident = map_of (resourceIdByURL s1) (page_url page) in
           if \<not> truthy ident then
             (case createResource env page userId s1 of
                (Inl e, s2) \<Rightarrow> (Inl e, s2)
              | (Inr result, s2) \<Rightarrow>
                  (let s3 =
                     (case result_id result of
                        None \<Rightarrow> s2
                      | Some i \<Rightarrow>
                          if i \<noteq> [] then
                            (let byURL = AList.update (page_url page) i (resourceIdByURL s2)
                             in storage_put ''index/URL'' (Index byURL)
                                  (s2\<lparr>resourceIdByURL := byURL\<rparr>))
                          else s2)
                   in (Inr \<lparr>result_id = result_id result,
                            result_status = result_status result\<rparr>, s3)))
           else (Inr \<lparr>result_id = ident, result_status = RESUBMITTED\<rparr>, s1)))"

text \<open>
  Lines 513--555; \<open>refresh_page\<close> is the object of lines 531--537, made of the scraped
  page with the page details spread over it. \<^verbatim>\<open>createdAt\<close> of a summary is a string, so
  \<^verbatim>\<open>currentPage?.createdAt ?? resource.createdAt ?? now\<close> stops at its second operand.

  On an \<open>Untyped\<close> object the scraper, the page details and the safety check are
  called with what the object holds under \<open>url\<close>, undefined as a rule.
  \<open>refresh_untyped\<close> tells for the environment what they throw on it, if they do, and
  then nothing has been written; if they return, the update is started and \<^verbatim>\<open>refresh\<close>
  is taken to return \<^verbatim>\<open>true\<close>.
\<close>

definition refresh_page ::
  "Env \<Rightarrow> ResourceSummary \<Rightarrow> Page option \<Rightarrow> Page \<Rightarrow> bool \<Rightarrow> Page" where
  "refresh_page env resource currentPage merged safe =
     merged
       \<lparr>page_isSafe := safe,
        page_createdAt :=
          (case currentPage of
             Some p \<Rightarrow> page_createdAt p
           | None \<Rightarrow> createdAt resource),
        page_updatedAt := now env\<rparr>"

definition refresh :: "Env \<Rightarrow> string \<Rightarrow> string \<Rightarrow> State \<Rightarrow> (thrown + bool) \<times> State" where
  "refresh env userId resourceId s =
     (case getResource resourceId s of
        None \<Rightarrow> (Inr False, s)
      | Some (Untyped object) \<Rightarrow>
          (case refresh_untyped env object of
             Some e \<Rightarrow> (Inl e, s)
           | None \<Rightarrow> (Inr True, untyped_update s))
      | Some (Typed resource) \<Rightarrow>
          (let currentPage = PAGE s (url resource) in
           case scrapeHTML env (url resource) of
             Inl e \<Rightarrow> (Inl e, s)
           | Inr updatedPage \<Rightarrow>
               (case getPageDetails env (url resource) of
                  Inl e \<Rightarrow> (Inl e, s)
                | Inr pageMetadata \<Rightarrow>
                    (case safe_check env (url resource) of
                       Inl e \<Rightarrow> (Inl e, s)
                     | Inr safe \<Rightarrow>
                         (let page = refresh_page env resource currentPage
                                       (pageMetadata updatedPage) safe;
                              s1 = PAGE_put (page_url page) page s;
                              changed = (url resource \<noteq> page_url page);
                              s2 = (if changed then PAGE_put (url resource) page s1 else s1);
                              resource' =
                                (if changed
                                 then resource\<lparr>url := page_url page, updatedAt := now env,
                                        updatedBy := userId\<rparr>
                                 else resource)
                          in case updateResource env resource' (Some page) s2 of
                               (Inl e, s3) \<Rightarrow> (Inl e, s3)
                             | (Inr u, s3) \<Rightarrow> (Inr True, s3))))))"

text \<open>
  \<^verbatim>\<open>resourceId ? await getResource(resourceId) : null\<close>, the first line of
  \<^verbatim>\<open>getDetails\<close>, \<^verbatim>\<open>view\<close>, \<^verbatim>\<open>bookmark\<close> and \<^verbatim>\<open>unbookmark\<close>.
\<close>

definition lookup_resource :: "string option \<Rightarrow> State \<Rightarrow> fetched option" where
  "lookup_resource resourceId s =
     (case resourceId of
        None \<Rightarrow> None
      | Some i \<Rightarrow> if i \<noteq> [] then getResource i s else None)"

text \<open>Lines 556--566: \<^verbatim>\<open>updateResourceCache\<close> is started and not awaited.\<close>

definition getDetails ::
  "Env \<Rightarrow> string option \<Rightarrow> State \<Rightarrow> (thrown + fetched option) \<times> State" where
  "getDetails env resourceId s =
     (case lookup_resource resourceId s of
        None \<Rightarrow> (Inr None, s)
      | Some (Untyped object) \<Rightarrow> (Inr (Some (Untyped object)), untyped_update s)
      | Some (Typed resource) \<Rightarrow>
          (Inr (Some (Typed resource)),
           detached (updateResourceCache env resource None) s))"

text \<open>Lines 567--580: \<^verbatim>\<open>updateResource\<close> is started and not awaited.\<close>

definition view :: "Env \<Rightarrow> string option \<Rightarrow> State \<Rightarrow> (thrown + bool) \<times> State" where
  "view env resourceId s =
     (case lookup_resource resourceId s of
        None \<Rightarrow> (Inr False, s)
      | Some (Untyped object) \<Rightarrow> (Inr True, untyped_update s)
      | Some (Typed resource) \<Rightarrow>
          (Inr True,
           detached
             (updateResource env (resource\<lparr>viewCounts := js_plus_one (viewCounts resource)\<rparr>) None)
             s))"

text \<open>
  Lines 581--599 and 600--618. \<^verbatim>\<open>bookmarked !== resource.bookmarked\<close> compares
  references: the variable holds another array exactly when the branch before it
  assigned the result of \<^verbatim>\<open>concat\<close> or \<^verbatim>\<open>filter\<close>, which \<open>reassigned\<close> records.

  On an \<open>Untyped\<close> object \<^verbatim>\<open>bookmarked\<close> is undefined or a string. Undefined, it is
  replaced by a new empty array, which differs from it, and the update is started.
  A string that holds the user id as a substring is left as it is by \<^verbatim>\<open>bookmark\<close>, and
  has no \<^verbatim>\<open>filter\<close> for \<^verbatim>\<open>unbookmark\<close> to call, which throws; another string is
  extended by \<^verbatim>\<open>bookmark\<close> and left as it is by \<^verbatim>\<open>unbookmark\<close>.
\<close>

definition bookmark :: "Env \<Rightarrow> string \<Rightarrow> string option \<Rightarrow> State \<Rightarrow> (thrown + bool) \<times> State" where
  "bookmark env userId resourceId s =
     (case lookup_resource resourceId s of
        None \<Rightarrow> (Inr False, s)
      | Some (Untyped object) \<Rightarrow>
          (case map_of object ''bookmarked'' of
             None \<Rightarrow> (Inr True, untyped_update s)
           | Some str \<Rightarrow>
               (Inr True, if js_includes str userId then s else untyped_update s))
      | Some (Typed resource) \<Rightarrow>
          (let reassigned = (userId \<notin> set (bookmarked resource));
               bookmarked' =
                 (if reassigned then bookmarked resource @ [userId] else bookmarked resource)
           in (Inr True,
               if reassigned
               then detached (updateResource env (resource\<lparr>bookmarked := bookmarked'\<rparr>) None) s
               else s)))"

definition unbookmark :: "Env \<Rightarrow> string \<Rightarrow> string option \<Rightarrow> State \<Rightarrow> (thrown + bool) \<times> State" where
  "unbookmark env userId resourceId s =
     (case lookup_resource resourceId s of
        None \<Rightarrow> (Inr False, s)
      | Some (Untyped object) \<Rightarrow>
          (case map_of object ''bookmarked'' of
             None \<Rightarrow> (Inr True, untyped_update s)
           | Some str \<Rightarrow>
               if js_includes str userId
               then (Inl (ErrorObj ''bookmarked.filter is not a function''), s)
               else (Inr True, s))
      | Some (Typed resource) \<Rightarrow>
          (let reassigned = (userId \<in> set (bookmarked resource));
               bookmarked' =
                 (if reassigned then filter (\<lambda>i. i \<noteq> userId) (bookmarked resource)
                  else bookmarked resource)
           in (Inr True,
               if reassigned
               then detached (updateResource env (resource\<lparr>bookmarked := bookmarked'\<rparr>) None) s
               else s)))"

subsection \<open>The class \<^verbatim>\<open>ResourcesStore\<close>\<close>

text \<open>
  A request is what \<^verbatim>\<open>fetch\<close> reads of it: the path and the query parameter of its
  URL, its method, and the outcome of \<^verbatim>\<open>request.json()\<close>, which throws on a body that is
  not JSON. The object it yields has the fields the routes destructure.
\<close>

record Payload =
  body_url :: string
  body_userId :: string
  body_resourceId :: "string option"
  body_entries :: "string \<rightharpoonup> stored"

record Request =
  req_url :: string
  pathname :: string
  req_method :: string
  param_resourceId :: "string option"
  req_json :: "thrown + Payload"

datatype ResponseBody =
    Text string
  | SubmissionJson SubmissionResult
  | ResourceJson ResourceSummary
  | FieldsJson "(string \<times> string) list"
  | EntriesJson "string \<rightharpoonup> stored"

record Response =
  status :: nat
  body :: ResponseBody

datatype log_entry = LogError thrown | LogMessage string | LogReport Response

text \<open>
  The fields of the class: \<open>has_store\<close> tells whether \<^verbatim>\<open>this.store\<close> is set (the indices
  of the store it holds are the two index fields of the state).
\<close>

record ResourcesStore =
  has_store :: bool
  state :: State

text \<open>Lines 630--637: \<^verbatim>\<open>this.store\<close> stays \<^verbatim>\<open>null\<close> when the initialisation throws.\<close>

definition new_ResourcesStore :: "State \<Rightarrow> ResourcesStore" where
  "new_ResourcesStore s =
     (case createResourceStore s of
        Inl e \<Rightarrow> \<lparr>has_store = False, state = s\<rparr>
      | Inr s' \<Rightarrow> \<lparr>has_store = True, state = s'\<rparr>)"

definition not_found :: Response where
  "not_found = \<lparr>status = 404, body = Text ''Not found''\<rparr>"

definition ok :: Response where
  "ok = \<lparr>status = 200, body = Text ''OK''\<rparr>"

definition server_error :: Response where
  "server_error = \<lparr>status = 500, body = Text ''Internal Server Error''\<rparr>"

text \<open>
  The end of a route: the awaited method threw, or returned the value the response is
  made of; the state it left is the actor's in both cases.
\<close>

definition respond ::
  "ResourcesStore \<Rightarrow> ('a \<Rightarrow> Response) \<Rightarrow> (thrown + 'a) \<times> State \<Rightarrow>
     (thrown + Response) \<times> ResourcesStore" where
  "respond this f r =
     (case r of
        (Inl e, s') \<Rightarrow> (Inl e, this\<lparr>state := s'\<rparr>)
      | (Inr x, s') \<Rightarrow> (Inr (f x), this\<lparr>state := s'\<rparr>))"

text \<open>
  The \<^verbatim>\<open>try\<close> block of \<^verbatim>\<open>fetch\<close>, lines 648--706, with the value of \<^verbatim>\<open>response\<close> at its
  end. \<^verbatim>\<open>refresh\<close> declares its \<^verbatim>\<open>resourceId\<close> a string; a \<^verbatim>\<open>null\<close> there is read as an
  ill-typed value.
\<close>

definition try_block ::
  "Env \<Rightarrow> Request \<Rightarrow> ResourcesStore \<Rightarrow> (thrown + Response) \<times> ResourcesStore" where
  "try_block env request this =
     (let p = pathname request; m = toUpperCase (req_method request); s = state this in
      if \<not> has_store this then (Inl (ErrorObj []), this)
      else if p = ''/submit'' \<and> m = ''POST'' then
        (case req_json request of
           Inl e \<Rightarrow> (Inl e, this)
         | Inr b \<Rightarrow>
             respond this (\<lambda>result. \<lparr>status = 201, body = SubmissionJson result\<rparr>)
               (submit env (body_userId b) (body_url b) s))
      else if p = ''/refresh'' \<and> m = ''POST'' then
        (case req_json request of
           Inl e \<Rightarrow> (Inl e, this)
         | Inr b \<Rightarrow>
             (case body_resourceId b of
                None \<Rightarrow> (Inl ill_typed, this)
              | Some i \<Rightarrow>
                  respond this (\<lambda>success. if success then ok else not_found)
                    (refresh env (body_userId b) i s)))
      else if p = ''/details'' \<and> m = ''GET'' then
        respond this
          (\<lambda>resource. case resource of
                         None \<Rightarrow> not_found
                       | Some (Typed r) \<Rightarrow> \<lparr>status = 200, body = ResourceJson r\<rparr>
                       | Some (Untyped object) \<Rightarrow>
                           \<lparr>status = 200, body = FieldsJson object\<rparr>)
          (getDetails env (param_resourceId request) s)
      else if p = ''/view'' \<and> m = ''PUT'' then
        (case req_json request of
           Inl e \<Rightarrow> (Inl e, this)
         | Inr b \<Rightarrow>
             respond this (\<lambda>success. if success then ok else not_found)
               (view env (body_resourceId b) s))
      else if p = ''/bookmark'' \<and> m = ''PUT'' then
        (case req_json request of
           Inl e \<Rightarrow> (Inl e, this)
         | Inr b \<Rightarrow>
             respond this (\<lambda>success. if success then ok else not_found)
               (bookmark env (body_userId b) (body_resourceId b) s))
      else if p = ''/bookmark'' \<and> m = ''DELETE'' then
        (case req_json request of
           Inl e \<Rightarrow> (Inl e, this)
         | Inr b \<Rightarrow>
             respond this (\<lambda>success. if success then ok else not_found)
               (unbookmark env (body_userId b) (body_resourceId b) s))
      else if p = ''/backup'' \<and> m = ''POST'' then
        (Inr \<lparr>status = 200, body = EntriesJson (storage s)\<rparr>, this)
      else if p = ''/restore'' \<and> m = ''POST'' then
        (case req_json request of
           Inl e \<Rightarrow> (Inl e, this)
         | Inr b \<Rightarrow>
             (case storage_put_entries (body_entries b) s of
                (Inl e, s1) \<Rightarrow> (Inl e, this\<lparr>state := s1\<rparr>)
              | (Inr u, s1) \<Rightarrow>
                  (case createResourceStore s1 of
                     Inl e \<Rightarrow> (Inl e, this\<lparr>state := s1\<rparr>)
                   | Inr s2 \<Rightarrow> (Inr ok, this\<lparr>state := s2\<rparr>))))
      else (Inr not_found, this))"

text \<open>
  Lines 639--721; \<open>catch_log\<close> is what the \<^verbatim>\<open>catch\<close> block logs (lines 708--713). The
  logger of \<^verbatim>\<open>../logging\<close> is taken not to throw; what it is given is returned as a
  list, \<^verbatim>\<open>logger.report\<close> of the \<^verbatim>\<open>finally\<close> block last.
\<close>

definition catch_log :: "Request \<Rightarrow> thrown \<Rightarrow> log_entry list" where
  "catch_log request e =
     (case e of
        ErrorObj message \<Rightarrow>
          [LogError e,
           LogMessage (''ResourcesStore failed while handling fetch - '' @ req_url request
             @ ''; Received message: '' @ message)]
      | NonError v \<Rightarrow> [])"

definition fetch ::
  "Env \<Rightarrow> Request \<Rightarrow> ResourcesStore \<Rightarrow> Response \<times> log_entry list \<times> ResourcesStore" where
  "fetch env request this =
     (case try_block env request this of
        (Inr response, this') \<Rightarrow> (response, [LogReport response], this')
      | (Inl e, this') \<Rightarrow>
          (server_error, catch_log request e @ [LogReport server_error], this'))"

subsection \<open>Sequences of calls\<close>

text \<open>Successive calls of \<^verbatim>\<open>submit\<close> for one URL, each with its environment and user.\<close>

fun submits ::
  "(Env \<times> string) list \<Rightarrow> string \<Rightarrow> State \<Rightarrow> (thrown + SubmissionResult) list \<times> State" where
  "submits [] u s = ([], s)"
| "submits ((env, userId) # calls) u s =
     (case submit env userId u s of
        (r, s1) \<Rightarrow> (case submits calls u s1 of (rs, s2) \<Rightarrow> (r # rs, s2)))"

text \<open>\<open>n\<close> successive calls of \<^verbatim>\<open>view\<close> for one id.\<close>

fun views :: "Env \<Rightarrow> string option \<Rightarrow> nat \<Rightarrow> State \<Rightarrow> (thrown + bool) list \<times> State" where
  "views env resourceId 0 s = ([], s)"
| "views env resourceId (Suc n) s =
     (case view env resourceId s of
        (r, s1) \<Rightarrow> (case views env resourceId n s1 of (rs, s2) \<Rightarrow> (r # rs, s2)))"

text \<open>
  Scraping \<open>u\<close> in \<open>env\<close> succeeds and yields a page whose canonical URL is \<open>c\<close>.
\<close>

definition resolves_to :: "Env \<Rightarrow> string \<Rightarrow> string \<Rightarrow> bool" where
  "resolves_to env u c =
     (case scrapeHTML env u of
        Inl e \<Rightarrow> False
      | Inr scraped \<Rightarrow>
          (case getPageDetails env (page_url scraped) of
             Inl e \<Rightarrow> False
           | Inr pageDetails \<Rightarrow>
               \<not> isl (safe_check env (page_url scraped)) \<and> page_url (pageDetails scraped) = c))"

text \<open>
  What \<^verbatim>\<open>PAGE\<close> holds under \<open>u\<close>, if anything, is a page whose canonical URL is \<open>c\<close>.
\<close>

definition page_inv :: "string \<Rightarrow> string \<Rightarrow> State \<Rightarrow> bool" where
  "page_inv u c s = (case PAGE s u of None \<Rightarrow> True | Some q \<Rightarrow> page_url q = c)"

fun is_PagePut :: "event \<Rightarrow> bool" where
  "is_PagePut (PagePut k) = True"
| "is_PagePut e = False"

subsection \<open>A scenario\<close>

text \<open>
  The values of the end-to-end scenario: a fresh actor, the page of
  \<^verbatim>\<open>https://remix.run/docs\<close>, and an environment whose scraper returns that page for
  every address, with no API key for the safety check. Its content store rejects a
  sidecar whose title alone is longer than the 1024 bytes allowed for the whole of it,
  and its scraper throws on an address that is undefined.
\<close>

definition docs_url :: string where
  "docs_url = ''https://remix.run/docs''"

definition docs_page :: Page where
  "docs_page =
     \<lparr>page_url = ''https://remix.run/docs'', page_category = ''concepts'',
      page_author = None, page_title = ''Remix Docs'',
      page_description = Some ''Learn Remix'', page_image = None, page_video = None,
      page_isSafe = True, page_dependencies = None, page_configs = None,
      page_createdAt = [], page_updatedAt = []\<rparr>"

definition metadata_too_large :: thrown where
  "metadata_too_large = ErrorObj ''KV PUT failed: 413 Metadata too large''"

definition env0 :: Env where
  "env0 =
     \<lparr>GOOGLE_API_KEY = None,
      scrapeHTML = (\<lambda>u. Inr (docs_page\<lparr>page_url := u\<rparr>)),
      getPageDetails = (\<lambda>u. Inr (\<lambda>p. p)),
      checkSafeBrowsingAPI = (\<lambda>u. Inr True),
      getIntegrations = (\<lambda>c p d. []),
      getIntegrationsFromPage = (\<lambda>page p. []),
      generateId = ''0123456789AB'',
      now = ''2022-01-01T00:00:00.000Z'',
      now_created = ''2022-01-01T00:00:00.001Z'',
      CONTENT_rejects =
        (\<lambda>key entry. if 1024 < length (md_title (snd entry))
                     then Some metadata_too_large else None),
      refresh_untyped = (\<lambda>object. Some (ErrorObj ''Invalid URL''))\<rparr>"

text \<open>The same environment with an API key and a safety check that flags every URL.\<close>

definition env_unsafe :: Env where
  "env_unsafe =
     env0\<lparr>GOOGLE_API_KEY := Some ''key'', checkSafeBrowsingAPI := (\<lambda>u. Inr False),
          generateId := ''CDEFGHIJKLMN''\<rparr>"

definition empty_state :: State where
  "empty_state =
     \<lparr>storage = Map.empty, PAGE = Map.empty, CONTENT = Map.empty,
      resourceIdByURL = [], resourceIdByPackageName = [], trace = []\<rparr>"

text \<open>The state after \<^verbatim>\<open>submit(userA, "https://remix.run/docs")\<close> on the fresh actor.\<close>

definition published_state :: State where
  "published_state = snd (submit env0 ''userA'' docs_url empty_state)"

text \<open>
  The state after a later \<^verbatim>\<open>refresh\<close> of that resource during which the safety check
  flags the page.
\<close>

definition unsafe_state :: State where
  "unsafe_state = snd (refresh env_unsafe ''userA'' ''0123456789AB'' published_state)"

text \<open>The summary that state holds.\<close>

definition docs_summary :: ResourceSummary where
  "docs_summary =
     \<lparr>id' = ''0123456789AB'', url = ''https://remix.run/docs'', bookmarked = [],
      viewCounts = 0,
      createdAt = ''2022-01-01T00:00:00.001Z'', createdBy = ''userA'',
      updatedAt = ''2022-01-01T00:00:00.001Z'', updatedBy = ''userA''\<rparr>"

text \<open>An environment in which the address of the page has moved.\<close>

definition env_moved :: Env where
  "env_moved =
     env0\<lparr>scrapeHTML := (\<lambda>u. Inr (docs_page\<lparr>page_url := ''https://remix.run/docs/en/v1''\<rparr>)),
          now := ''2022-02-02T00:00:00.000Z''\<rparr>"

text \<open>
  Requests of the facade: a view of the published resource, a submission of the page,
  a backup, the details of a key, a restore; an initialised actor on a state; and an
  environment whose scraper throws a value that is not an \<^verbatim>\<open>Error\<close>.
\<close>

definition no_payload :: Payload where
  "no_payload =
     \<lparr>body_url = [], body_userId = [], body_resourceId = None, body_entries = Map.empty\<rparr>"

definition view_request :: Request where
  "view_request =
     \<lparr>req_url = ''http://resources/view'', pathname = ''/view'', req_method = ''PUT'',
      param_resourceId = None,
      req_json = Inr (no_payload\<lparr>body_resourceId := Some ''0123456789AB''\<rparr>)\<rparr>"

definition submit_request :: Request where
  "submit_request =
     \<lparr>req_url = ''http://resources/submit'', pathname = ''/submit'', req_method = ''POST'',
      param_resourceId = None,
      req_json = Inr (no_payload\<lparr>body_url := ''https://remix.run/docs'',
                        body_userId := ''userA''\<rparr>)\<rparr>"

definition backup_request :: Request where
  "backup_request =
     \<lparr>req_url = ''http://resources/backup'', pathname = ''/backup'', req_method = ''POST'',
      param_resourceId = None, req_json = Inl (ErrorObj ''Unexpected end of JSON input'')\<rparr>"

definition details_request :: "string \<Rightarrow> Request" where
  "details_request rid =
     \<lparr>req_url = ''http://resources/details?resourceId='' @ rid, pathname = ''/details'',
      req_method = ''GET'', param_resourceId = Some rid,
      req_json = Inl (ErrorObj ''Unexpected end of JSON input'')\<rparr>"

definition restore_request :: "(string \<rightharpoonup> stored) \<Rightarrow> Request" where
  "restore_request d =
     \<lparr>req_url = ''http://resources/restore'', pathname = ''/restore'', req_method = ''POST'',
      param_resourceId = None, req_json = Inr (no_payload\<lparr>body_entries := d\<rparr>)\<rparr>"

definition actor :: "State \<Rightarrow> ResourcesStore" where
  "actor s = \<lparr>has_store = True, state = s\<rparr>"

definition env_throwing :: Env where
  "env_throwing = env0\<lparr>scrapeHTML := (\<lambda>u. Inl (NonError ''Response 404''))\<rparr>"

text \<open>An environment whose scraper finds a description of a hundred characters.\<close>

definition env_long :: Env where
  "env_long =
     env0\<lparr>scrapeHTML :=
       (\<lambda>u. Inr (docs_page\<lparr>page_url := u,
                     page_description := Some (replicate 100 CHR ''x'')\<rparr>))\<rparr>"

text \<open>
  Every entry of the content store of \<open>s'\<close> is the entry of \<open>s\<close>, or a Resource with
  the sidecar computed from it.
\<close>

definition writes_sidecars :: "State \<Rightarrow> State \<Rightarrow> bool" where
  "writes_sidecars s s' =
     (\<forall>k. CONTENT s' k = CONTENT s k \<or>
          (\<exists>resource. CONTENT s' k = Some (resource, build_metadata resource)))"

text \<open>
  The backup of the published state restored into a fresh actor, whose page and content
  stores are empty; and the published state after the restore of a dump that gives the
  summary a counter of \<open>2^53 = 9007199254740992\<close>.
\<close>

definition orphan_state :: State where
  "orphan_state =
     state (snd (snd (fetch env0 (restore_request (storage published_state))
       (actor empty_state))))"

definition saturated_state :: State where
  "saturated_state =
     state (snd (snd (fetch env0
       (restore_request
          [''0123456789AB'' \<mapsto> Summary (docs_summary\<lparr>viewCounts := 9007199254740992\<rparr>)])
       (actor published_state))))"

text \<open>
  An environment whose scraper finds a title of 1100 characters, and the same with
  the next id of the generator.
\<close>

definition env_titled :: Env where
  "env_titled =
     env0\<lparr>scrapeHTML :=
       (\<lambda>u. Inr (docs_page\<lparr>page_url := u, page_title := replicate 1100 CHR ''t''\<rparr>))\<rparr>"

definition env_titled_next :: Env where
  "env_titled_next = env_titled\<lparr>generateId := ''CDEFGHIJKLMN''\<rparr>"

text \<open>
  An actor that holds 128 resources: 129 keys with the URL index (no page names a
  package, so that the key of the package index is not written).
\<close>

definition crowd_id :: "nat \<Rightarrow> string" where
  "crowd_id n = CHR ''r'' # replicate n CHR ''0''"

definition crowd_summary :: "nat \<Rightarrow> ResourceSummary" where
  "crowd_summary n =
     docs_summary\<lparr>id' := crowd_id n, url := ''https://remix.run/docs/'' @ crowd_id n\<rparr>"

definition crowd_index :: index where
  "crowd_index = map (\<lambda>n. (url (crowd_summary n), crowd_id n)) [0..<128]"

definition crowded_state :: State where
  "crowded_state =
     \<lparr>storage =
        (\<lambda>k. if k = ''index/URL'' then Some (Index crowd_index)
             else map_of (map (\<lambda>n. (crowd_id n, Summary (crowd_summary n))) [0..<128]) k),
      PAGE = Map.empty, CONTENT = Map.empty,
      resourceIdByURL = crowd_index, resourceIdByPackageName = [], trace = []\<rparr>"

section \<open>Properties\<close>

lemmas ops = submit_def submit_page_def createResource_def new_summary_def
  updateResource_def updateResourceCache_def cache_entry_def safe_check_def storage_put_def
  PAGE_put_def CONTENT_put_def
  build_resource_def build_metadata_def page_integrations_def refresh_def
  refresh_page_def getResource_def
  Let_def

lemmas scenario = env0_def env_unsafe_def empty_state_def docs_page_def docs_url_def

subsection \<open>The states of the scenario\<close>

lemma published_summary:
  "storage published_state ''0123456789AB'' = Some (Summary docs_summary)"
  by (simp add: published_state_def docs_summary_def ops scenario)

lemma published_page:
  "PAGE published_state ''https://remix.run/docs'' =
     Some (docs_page\<lparr>page_createdAt := ''2022-01-01T00:00:00.000Z'',
             page_updatedAt := ''2022-01-01T00:00:00.000Z''\<rparr>)"
  by (simp add: published_state_def ops scenario)

lemma createResourceStore_reads:
  assumes "storage_get_index ''index/URL'' s = Inr byURL"
      and "storage_get_index ''index/PackageName'' s = Inr byPackageName"
  shows "createResourceStore s =
           Inr (s\<lparr>resourceIdByURL := byURL, resourceIdByPackageName := byPackageName\<rparr>)"
  using assms by (simp add: createResourceStore_def)

lemma storage_get_index_cong:
  "storage s1 = storage s \<Longrightarrow> storage_get_index k s1 = storage_get_index k s"
  by (simp add: storage_get_index_def)

lemma published_storage:
  "storage published_state =
     [''0123456789AB'' \<mapsto> Summary docs_summary,
      ''index/URL'' \<mapsto> Index [(''https://remix.run/docs'', ''0123456789AB'')]]"
  by (simp add: published_state_def docs_summary_def ops scenario)

lemma published_storage_small:
  "finite (dom (storage published_state)) \<and> card (dom (storage published_state)) \<le> 128"
  by (simp add: published_storage)

lemma storage_put_entries_accepts:
  "finite (dom d) \<Longrightarrow> card (dom d) \<le> 128 \<Longrightarrow>
     storage_put_entries d s =
       (Inr (), s\<lparr>storage := storage s ++ d, trace := trace s @ [StoragePutEntries]\<rparr>)"
  by (simp add: storage_put_entries_def)

lemma storage_put_entries_rejects:
  "\<not> (finite (dom d) \<and> card (dom d) \<le> 128) \<Longrightarrow>
     storage_put_entries d s = (Inl too_many_pairs, s)"
  by (simp add: storage_put_entries_def)

lemma fetch_restore:
  assumes "has_store this" "pathname request = ''/restore''"
      and "toUpperCase (req_method request) = ''POST''" "req_json request = Inr b"
      and "storage_put_entries (body_entries b) (state this) = (Inr (), s1)"
      and "createResourceStore s1 = Inr s2"
  shows "fetch env request this = (ok, [LogReport ok], this\<lparr>state := s2\<rparr>)"
  using assms by (simp add: fetch_def try_block_def Let_def)

lemma fetch_restore_rejected:
  assumes "has_store this" "pathname request = ''/restore''"
      and "toUpperCase (req_method request) = ''POST''" "req_json request = Inr b"
      and "storage_put_entries (body_entries b) (state this) = (Inl e, s1)"
  shows "fetch env request this =
           (server_error, catch_log request e @ [LogReport server_error],
            this\<lparr>state := s1\<rparr>)"
  using assms by (simp add: fetch_def try_block_def Let_def)

lemma published_indices:
  "storage_get_index ''index/URL'' published_state =
     Inr [(''https://remix.run/docs'', ''0123456789AB'')] \<and>
   storage_get_index ''index/PackageName'' published_state = Inr []"
  by (simp add: storage_get_index_def published_state_def ops scenario)

lemma orphan_state_eq:
  "orphan_state =
     \<lparr>storage = storage published_state, PAGE = Map.empty, CONTENT = Map.empty,
      resourceIdByURL = [(''https://remix.run/docs'', ''0123456789AB'')],
      resourceIdByPackageName = [], trace = [StoragePutEntries]\<rparr>"
proof -
  let ?s1 = "empty_state\<lparr>storage := storage empty_state ++ storage published_state,
               trace := trace empty_state @ [StoragePutEntries]\<rparr>"
  have pe: "storage_put_entries (storage published_state) empty_state = (Inr (), ?s1)"
    using published_storage_small by (simp add: storage_put_entries_accepts)
  have st: "storage ?s1 = storage published_state"
    by (simp add: empty_state_def)
  have crs: "createResourceStore ?s1 =
               Inr (?s1\<lparr>resourceIdByURL := [(''https://remix.run/docs'', ''0123456789AB'')],
                        resourceIdByPackageName := []\<rparr>)"
    using createResourceStore_reads[of ?s1] storage_get_index_cong[OF st] published_indices
    by simp
  have "fetch env0 (restore_request (storage published_state)) (actor empty_state) =
          (ok, [LogReport ok],
           (actor empty_state)\<lparr>state :=
              ?s1\<lparr>resourceIdByURL := [(''https://remix.run/docs'', ''0123456789AB'')],
                   resourceIdByPackageName := []\<rparr>\<rparr>)"
  proof (rule fetch_restore[where b = "no_payload\<lparr>body_entries := storage published_state\<rparr>"
          and ?s1.0 = ?s1])
    show "storage_put_entries
            (body_entries (no_payload\<lparr>body_entries := storage published_state\<rparr>))
            (state (actor empty_state)) = (Inr (), ?s1)"
      using pe by (simp add: actor_def)
    show "createResourceStore ?s1 =
            Inr (?s1\<lparr>resourceIdByURL := [(''https://remix.run/docs'', ''0123456789AB'')],
                     resourceIdByPackageName := []\<rparr>)"
      by (rule crs)
  qed (simp_all add: actor_def restore_request_def toUpperCase_def upper_char_def)
  then show ?thesis
    by (simp add: orphan_state_def empty_state_def)
qed

lemma saturated_state_storage:
  "storage saturated_state ''0123456789AB'' =
     Some (Summary (docs_summary\<lparr>viewCounts := 9007199254740992\<rparr>)) \<and>
   PAGE saturated_state = PAGE published_state"
proof -
  let ?d = "[''0123456789AB'' \<mapsto> Summary (docs_summary\<lparr>viewCounts := 9007199254740992\<rparr>)]"
  let ?s1 = "published_state\<lparr>storage := storage published_state ++ ?d,
               trace := trace published_state @ [StoragePutEntries]\<rparr>"
  have pe: "storage_put_entries ?d published_state = (Inr (), ?s1)"
    by (simp add: storage_put_entries_accepts)
  have crs: "createResourceStore ?s1 =
               Inr (?s1\<lparr>resourceIdByURL := [(''https://remix.run/docs'', ''0123456789AB'')],
                        resourceIdByPackageName := []\<rparr>)"
    by (simp add: createResourceStore_def storage_get_index_def published_storage)
  have "fetch env0 (restore_request ?d) (actor published_state) =
          (ok, [LogReport ok],
           (actor published_state)\<lparr>state :=
              ?s1\<lparr>resourceIdByURL := [(''https://remix.run/docs'', ''0123456789AB'')],
                   resourceIdByPackageName := []\<rparr>\<rparr>)"
  proof (rule fetch_restore[where b = "no_payload\<lparr>body_entries := ?d\<rparr>" and ?s1.0 = ?s1])
    show "storage_put_entries (body_entries (no_payload\<lparr>body_entries := ?d\<rparr>))
            (state (actor published_state)) = (Inr (), ?s1)"
      using pe by (simp add: actor_def)
    show "createResourceStore ?s1 =
            Inr (?s1\<lparr>resourceIdByURL := [(''https://remix.run/docs'', ''0123456789AB'')],
                     resourceIdByPackageName := []\<rparr>)"
      by (rule crs)
  qed (simp_all add: actor_def restore_request_def toUpperCase_def upper_char_def)
  then show ?thesis
    by (simp add: saturated_state_def)
qed

subsection \<open>Submission\<close>

lemma submit_page_keeps:
  "submit_page env u s = (r, s1) \<Longrightarrow>
     storage s1 = storage s \<and> CONTENT s1 = CONTENT s \<and>
     resourceIdByURL s1 = resourceIdByURL s \<and>
     resourceIdByPackageName s1 = resourceIdByPackageName s"
  by (auto simp: submit_page_def PAGE_put_def Let_def split: option.splits sum.splits)

text \<open>
  With the page at hand \<^verbatim>\<open>updateResource\<close> writes the summary, and then the entry of
  the content store unless that store rejects it.
\<close>

lemma cache_entry_id: "id' (fst (cache_entry env r p s)) = id' r"
  by (simp add: cache_entry_def build_resource_def Let_def)

lemma cache_entry_storage_put: "cache_entry env r p (storage_put k v s) = cache_entry env r p s"
  by (simp add: cache_entry_def storage_put_def)

lemma updateResource_given_page:
  "updateResource env r (Some p) s =
     (case CONTENT_rejects env (''resources/'' @ id' r) (cache_entry env r p s) of
        Some e \<Rightarrow> (Inl e, storage_put (id' r) (Summary r) s)
      | None \<Rightarrow>
          (Inr (),
           CONTENT_put (''resources/'' @ id' r) (cache_entry env r p s)
             (storage_put (id' r) (Summary r) s)))"
  by (simp add: updateResource_def updateResourceCache_def Let_def cache_entry_id
        cache_entry_storage_put split: option.splits)

lemma new_summary_id: "id' (new_summary env page userId) = generateId env"
  by (simp add: new_summary_def Let_def)

lemma submit_first:
  assumes sp: "submit_page env u s = (Inr page, s1)"
      and safe: "page_isSafe page"
      and new: "\<not> truthy (map_of (resourceIdByURL s) (page_url page))"
      and gid: "generateId env \<noteq> []"
      and acc: "CONTENT_rejects env (''resources/'' @ generateId env)
                  (cache_entry env (new_summary env page userId) page s1) = None"
      and run: "submit env userId u s = (r, s2)"
  shows "r = Inr \<lparr>result_id = Some (generateId env), result_status = PUBLISHED\<rparr> \<and>
         map_of (resourceIdByURL s2) (page_url page) = Some (generateId env) \<and>
         PAGE s2 = PAGE s1"
proof -
  from submit_page_keeps[OF sp] have ix: "resourceIdByURL s1 = resourceIdByURL s" by simp
  from run sp safe new gid ix acc show ?thesis
    by (auto simp: submit_def createResource_def updateResource_given_page new_summary_id
          Let_def CONTENT_put_def storage_put_def update_conv')
qed

text \<open>
  When the content store rejects the entry, the summary has been written, the URL is
  not registered, and \<^verbatim>\<open>submit\<close> throws.
\<close>

lemma submit_rejected:
  assumes sp: "submit_page env u s = (Inr page, s1)"
      and safe: "page_isSafe page"
      and new: "\<not> truthy (map_of (resourceIdByURL s) (page_url page))"
      and rej: "CONTENT_rejects env (''resources/'' @ generateId env)
                  (cache_entry env (new_summary env page userId) page s1) = Some e"
  shows "submit env userId u s =
           (Inl e, storage_put (generateId env) (Summary (new_summary env page userId)) s1)"
proof -
  from submit_page_keeps[OF sp] have ix: "resourceIdByURL s1 = resourceIdByURL s" by simp
  from sp safe new ix rej show ?thesis
    by (simp add: submit_def createResource_def updateResource_given_page new_summary_id)
qed

lemma submit_again:
  assumes sp: "submit_page env u s = (Inr page, s1)"
      and reg: "map_of (resourceIdByURL s) (page_url page) = Some i" "i \<noteq> []"
  shows "submit env userId u s = (Inr \<lparr>result_id = Some i, result_status = RESUBMITTED\<rparr>, s1)"
proof -
  from submit_page_keeps[OF sp] have ix: "resourceIdByURL s1 = resourceIdByURL s" by simp
  from sp reg ix show ?thesis by (simp add: submit_def)
qed

lemma submit_page_first_inv:
  "submit_page env u s = (Inr page, s1) \<Longrightarrow> page_inv u (page_url page) s1"
  by (auto simp: submit_page_def page_inv_def PAGE_put_def Let_def
        split: option.splits sum.splits if_splits)

lemma submit_page_later:
  assumes inv: "page_inv u c s"
      and res: "PAGE s u = None \<longrightarrow> resolves_to env u c"
  shows "\<exists>page s1 es. submit_page env u s = (Inr page, s1) \<and> page_url page = c \<and>
           page_inv u c s1 \<and> (PAGE s u \<noteq> None \<longrightarrow> PAGE s1 u \<noteq> None) \<and>
           trace s1 = trace s @ es \<and> list_all is_PagePut es"
proof (cases "PAGE s u")
  case None
  with res have "resolves_to env u c" by simp
  with None show ?thesis
    by (auto simp: submit_page_def resolves_to_def page_inv_def PAGE_put_def Let_def
          split: sum.splits)
next
  case (Some q)
  with inv show ?thesis by (simp add: submit_page_def page_inv_def)
qed

text \<open>
  Once the canonical URL is registered, every further call returns the registered id
  and writes nothing but, where it scraped again, the page.
\<close>

lemma submits_registered:
  assumes "map_of (resourceIdByURL s) c = Some i" "i \<noteq> []"
      and "page_inv u c s"
      and "PAGE s u = None \<longrightarrow> list_all (\<lambda>(env', userId'). resolves_to env' u c) calls"
      and "submits calls u s = (rs, s')"
  shows "rs = replicate (length calls)
                (Inr \<lparr>result_id = Some i, result_status = RESUBMITTED\<rparr>) \<and>
         storage s' = storage s \<and> CONTENT s' = CONTENT s \<and>
         resourceIdByURL s' = resourceIdByURL s \<and>
         resourceIdByPackageName s' = resourceIdByPackageName s \<and>
         (\<exists>es. trace s' = trace s @ es \<and> list_all is_PagePut es)"
  using assms
proof (induction calls arbitrary: s rs s')
  case Nil
  then show ?case by simp
next
  case (Cons call calls)
  obtain env userId where call: "call = (env, userId)" by (cases call)
  from Cons.prems(4) call have res: "PAGE s u = None \<longrightarrow> resolves_to env u c" by simp
  from submit_page_later[OF Cons.prems(3) res] obtain page s1 es
    where sp: "submit_page env u s = (Inr page, s1)" and pu: "page_url page = c"
      and inv1: "page_inv u c s1" and keep: "PAGE s u \<noteq> None \<longrightarrow> PAGE s1 u \<noteq> None"
      and tr: "trace s1 = trace s @ es" and es: "list_all is_PagePut es" by blast
  from Cons.prems(1) pu have reg: "map_of (resourceIdByURL s) (page_url page) = Some i"
    by simp
  note sub = submit_again[OF sp reg Cons.prems(2), of userId]
  note k = submit_page_keeps[OF sp]
  obtain rs1 s2 where rest: "submits calls u s1 = (rs1, s2)" by (cases "submits calls u s1")
  have reg1: "map_of (resourceIdByURL s1) c = Some i" using k Cons.prems(1) by simp
  have res1: "PAGE s1 u = None \<longrightarrow> list_all (\<lambda>(env', userId'). resolves_to env' u c) calls"
    using Cons.prems(4) keep by auto
  from Cons.IH[OF reg1 Cons.prems(2) inv1 res1 rest] obtain es1 where
    ih: "rs1 = replicate (length calls)
                 (Inr \<lparr>result_id = Some i, result_status = RESUBMITTED\<rparr>)"
        "storage s2 = storage s1" "CONTENT s2 = CONTENT s1"
        "resourceIdByURL s2 = resourceIdByURL s1"
        "resourceIdByPackageName s2 = resourceIdByPackageName s1"
        "trace s2 = trace s1 @ es1" "list_all is_PagePut es1" by blast
  from Cons.prems(5) call sub rest
  have out: "rs = Inr \<lparr>result_id = Some i, result_status = RESUBMITTED\<rparr> # rs1" "s' = s2"
    by simp_all
  have "trace s' = trace s @ (es @ es1) \<and> list_all is_PagePut (es @ es1)"
    using out ih tr es by simp
  then have "\<exists>es. trace s' = trace s @ es \<and> list_all is_PagePut es" by blast
  with out ih k show ?case by simp
qed

text \<open>
  \<^bold>\<open>C1\<close> (dedup idempotence), as the code has it. A first call of \<^verbatim>\<open>submit\<close> resolves
  the URL \<open>u\<close> to a safe page whose canonical URL has no id in the URL index yet, the
  generator returns a non-empty id, and the content store accepts the entry
  \<^verbatim>\<open>resources/{id}\<close> that the call writes (the Resource made of the new summary and the
  page, with its sidecar). Then the call returns that id with \<open>PUBLISHED\<close>, and every
  later call for \<open>u\<close>, by whatever user and in whatever environment, returns the same id
  with \<open>RESUBMITTED\<close> and leaves the actor's storage, the content store and both
  indices as the first call left them: the only writes of the later calls are page
  writes. A later call that does not find \<open>u\<close> in the page store scrapes it again; it is
  taken to succeed and to arrive at the same canonical URL.
\<close>

theorem submit_dedup:
  assumes "submit_page env u s = (Inr page, s1)"
      and "page_isSafe page"
      and "\<not> truthy (map_of (resourceIdByURL s) (page_url page))"
      and "generateId env \<noteq> []"
      and "CONTENT_rejects env (''resources/'' @ generateId env)
             (cache_entry env (new_summary env page userId) page s1) = None"
      and "submit env userId u s = (first, s2)"
      and "PAGE s2 u = None \<longrightarrow>
             list_all (\<lambda>(env', userId'). resolves_to env' u (page_url page)) later"
      and "submits later u s2 = (rest, s3)"
  shows "first = Inr \<lparr>result_id = Some (generateId env), result_status = PUBLISHED\<rparr> \<and>
         rest = replicate (length later)
                  (Inr \<lparr>result_id = Some (generateId env), result_status = RESUBMITTED\<rparr>) \<and>
         storage s3 = storage s2 \<and> CONTENT s3 = CONTENT s2 \<and>
         resourceIdByURL s3 = resourceIdByURL s2 \<and>
         resourceIdByPackageName s3 = resourceIdByPackageName s2 \<and>
         (\<exists>es. trace s3 = trace s2 @ es \<and> list_all is_PagePut es)"
proof -
  note f = submit_first[OF assms(1-6)]
  from submit_page_first_inv[OF assms(1)] f have inv: "page_inv u (page_url page) s2"
    by (simp add: page_inv_def)
  from f have reg: "map_of (resourceIdByURL s2) (page_url page) = Some (generateId env)"
    by simp
  from submits_registered[OF reg assms(4) inv assms(7) assms(8)] f show ?thesis by simp
qed

text \<open>
  The scenario: \<open>userA\<close> publishes the page; \<open>userB\<close>, for whom the safety check would
  flag it, and \<open>userA\<close> again are both told \<open>RESUBMITTED\<close> with the first id.
\<close>

theorem submit_dedup_witness:
  "fst (submit env0 ''userA'' docs_url empty_state) =
     Inr \<lparr>result_id = Some ''0123456789AB'', result_status = PUBLISHED\<rparr> \<and>
   fst (submits [(env_unsafe, ''userB''), (env0, ''userA'')] docs_url published_state) =
     [Inr \<lparr>result_id = Some ''0123456789AB'', result_status = RESUBMITTED\<rparr>,
      Inr \<lparr>result_id = Some ''0123456789AB'', result_status = RESUBMITTED\<rparr>] \<and>
   storage (snd (submits [(env_unsafe, ''userB''), (env0, ''userA'')] docs_url published_state)) =
     storage published_state"
proof -
  let ?page = "docs_page\<lparr>page_createdAt := now env0, page_updatedAt := now env0\<rparr>"
  let ?later = "[(env_unsafe, ''userB''), (env0, ''userA'')]"
  have a1: "submit_page env0 docs_url empty_state =
              (Inr ?page, snd (submit_page env0 docs_url empty_state))"
    by (simp add: ops scenario)
  have a2: "page_isSafe ?page" by (simp add: docs_page_def)
  have a3: "\<not> truthy (map_of (resourceIdByURL empty_state) (page_url ?page))"
    by (simp add: empty_state_def)
  have a4: "generateId env0 \<noteq> []" by (simp add: env0_def)
  have acc: "CONTENT_rejects env0 (''resources/'' @ generateId env0)
               (cache_entry env0 (new_summary env0 ?page ''userA'') ?page
                  (snd (submit_page env0 docs_url empty_state))) = None"
    by (simp add: env0_def cache_entry_def build_resource_def build_metadata_def
          docs_page_def Let_def)
  have a5: "submit env0 ''userA'' docs_url empty_state =
              (fst (submit env0 ''userA'' docs_url empty_state), published_state)"
    by (simp add: published_state_def)
  have a6: "PAGE published_state docs_url = None \<longrightarrow>
              list_all (\<lambda>(env', userId'). resolves_to env' docs_url (page_url ?page)) ?later"
    by (simp add: published_state_def ops scenario)
  have a7: "submits ?later docs_url published_state =
              (fst (submits ?later docs_url published_state),
               snd (submits ?later docs_url published_state))"
    by simp
  from submit_dedup[OF a1 a2 a3 a4 acc a5 a6 a7] show ?thesis by (simp add: env0_def)
qed

text \<open>
  The claim as stated fails where the content store rejects the entry. The page found
  has a title of 1100 characters, which the sidecar repeats, and the store allows 1024
  bytes of metadata. The first call throws after it has written its summary and before
  the URL is registered; the second call, for the same URL, does not find it in the
  index, writes a second summary under the next id and throws again.
\<close>

theorem submit_dedup_counterexample:
  "page_isSafe (docs_page\<lparr>page_title := replicate 1100 CHR ''t''\<rparr>) \<and>
   fst (submit env_titled ''userA'' docs_url empty_state) = Inl metadata_too_large \<and>
   fst (submit env_titled_next ''userA'' docs_url
          (snd (submit env_titled ''userA'' docs_url empty_state))) =
     Inl metadata_too_large \<and>
   storage (snd (submit env_titled_next ''userA'' docs_url
          (snd (submit env_titled ''userA'' docs_url empty_state)))) ''0123456789AB'' =
     Some (Summary docs_summary) \<and>
   storage (snd (submit env_titled_next ''userA'' docs_url
          (snd (submit env_titled ''userA'' docs_url empty_state)))) ''CDEFGHIJKLMN'' =
     Some (Summary (docs_summary\<lparr>id' := ''CDEFGHIJKLMN''\<rparr>)) \<and>
   resourceIdByURL (snd (submit env_titled_next ''userA'' docs_url
          (snd (submit env_titled ''userA'' docs_url empty_state)))) = []"
  by (simp add: env_titled_def env_titled_next_def metadata_too_large_def docs_summary_def
        ops scenario)

text \<open>
  \<^bold>\<open>C2\<close> (safety gate), as the code has it. The index is consulted before the flag
  (line 495); \<^verbatim>\<open>createResource\<close>, which tests the flag, runs only for a URL with no id.
  So a call of \<^verbatim>\<open>submit\<close> that resolves its URL to a page flagged unsafe leaves the
  actor's storage, the content store and both indices unchanged, and returns
  \<open>{id: null, status: INVALID}\<close> when the canonical URL has no id in the URL index, and
  the registered id with \<open>RESUBMITTED\<close> when it has one.
\<close>

theorem submit_unsafe:
  assumes "submit_page env u s = (Inr page, s1)" and "\<not> page_isSafe page"
  shows "submit env userId u s =
           (Inr (if truthy (map_of (resourceIdByURL s) (page_url page))
                 then \<lparr>result_id = map_of (resourceIdByURL s) (page_url page),
                       result_status = RESUBMITTED\<rparr>
                 else \<lparr>result_id = None, result_status = INVALID\<rparr>), s1) \<and>
         storage s1 = storage s \<and> CONTENT s1 = CONTENT s \<and>
         resourceIdByURL s1 = resourceIdByURL s \<and>
         resourceIdByPackageName s1 = resourceIdByPackageName s"
proof -
  note k = submit_page_keeps[OF assms(1)]
  from assms k show ?thesis
    by (simp add: submit_def createResource_def)
qed

theorem submit_unsafe_witness:
  "submit env_unsafe ''userA'' docs_url empty_state =
     (Inr \<lparr>result_id = None, result_status = INVALID\<rparr>,
      snd (submit_page env_unsafe docs_url empty_state)) \<and>
   storage (snd (submit_page env_unsafe docs_url empty_state)) = storage empty_state \<and>
   CONTENT (snd (submit_page env_unsafe docs_url empty_state)) = CONTENT empty_state \<and>
   resourceIdByURL (snd (submit_page env_unsafe docs_url empty_state)) = [] \<and>
   resourceIdByPackageName (snd (submit_page env_unsafe docs_url empty_state)) = []"
proof -
  let ?page = "docs_page\<lparr>page_isSafe := False, page_createdAt := now env_unsafe,
                 page_updatedAt := now env_unsafe\<rparr>"
  have a1: "submit_page env_unsafe docs_url empty_state =
              (Inr ?page, snd (submit_page env_unsafe docs_url empty_state))"
    by (simp add: ops scenario)
  have a2: "\<not> page_isSafe ?page" by simp
  from submit_unsafe[OF a1 a2, of "''userA''"] show ?thesis
    by (simp add: empty_state_def)
qed

text \<open>
  The claim as stated fails after a refresh that found the published page unsafe: the
  page store holds the page with the flag off, and \<^verbatim>\<open>submit\<close> of its URL returns the
  registered id with \<open>RESUBMITTED\<close>.
\<close>

theorem submit_unsafe_counterexample:
  "PAGE unsafe_state docs_url =
     Some (docs_page\<lparr>page_isSafe := False, page_createdAt := now env0,
             page_updatedAt := now env0\<rparr>) \<and>
   \<not> page_isSafe (docs_page\<lparr>page_isSafe := False, page_createdAt := now env0,
             page_updatedAt := now env0\<rparr>) \<and>
   fst (submit env0 ''userB'' docs_url unsafe_state) =
     Inr \<lparr>result_id = Some ''0123456789AB'', result_status = RESUBMITTED\<rparr> \<and>
   fst (submit env0 ''userB'' docs_url unsafe_state) \<noteq>
     Inr \<lparr>result_id = None, result_status = INVALID\<rparr>"
  by (simp add: unsafe_state_def published_state_def ops scenario)

text \<open>
  \<^verbatim>\<open>submit\<close> throws exactly when the page cannot be had, or the content store rejects
  the entry of a new resource.
\<close>

lemma submit_throws_iff:
  "(\<exists>e. fst (submit env userId u s) = Inl e) \<longleftrightarrow>
     (\<exists>e. fst (submit_page env u s) = Inl e) \<or>
     (\<exists>page s1 e. submit_page env u s = (Inr page, s1) \<and> page_isSafe page \<and>
        \<not> truthy (map_of (resourceIdByURL s) (page_url page)) \<and>
        CONTENT_rejects env (''resources/'' @ generateId env)
          (cache_entry env (new_summary env page userId) page s1) = Some e)"
proof -
  obtain x s1 where sp: "submit_page env u s = (x, s1)" by (cases "submit_page env u s")
  from submit_page_keeps[OF sp] have ix: "resourceIdByURL s1 = resourceIdByURL s" by simp
  show ?thesis
  proof (cases x)
    case (Inl e)
    with sp show ?thesis by (simp add: submit_def)
  next
    case (Inr page)
    with sp ix show ?thesis
      by (auto simp: submit_def createResource_def updateResource_given_page new_summary_id
            Let_def split: option.splits)
  qed
qed

text \<open>
  \<^bold>\<open>C10\<close>. Whenever \<^verbatim>\<open>submit\<close> returns, its id is \<^verbatim>\<open>null\<close> exactly when its status is
  \<open>INVALID\<close>; with \<open>PUBLISHED\<close> the id is the one just generated, with \<open>RESUBMITTED\<close> it
  is a non-empty id that the URL index held before the call.
\<close>

theorem submit_id_null_iff_invalid:
  assumes "submit env userId u s = (Inr res, s')"
  shows "(result_id res = None \<longleftrightarrow> result_status res = INVALID) \<and>
         (result_status res = PUBLISHED \<longrightarrow> result_id res = Some (generateId env)) \<and>
         (result_status res = RESUBMITTED \<longrightarrow>
            (\<exists>c i. map_of (resourceIdByURL s) c = Some i \<and> i \<noteq> [] \<and> result_id res = Some i))"
proof -
  obtain r1 s1 where sp: "submit_page env u s = (r1, s1)" by (cases "submit_page env u s")
  from submit_page_keeps[OF sp] have ix: "resourceIdByURL s1 = resourceIdByURL s" by simp
  from assms sp obtain page where r1: "r1 = Inr page"
    by (cases r1) (auto simp: submit_def)
  show ?thesis
  proof (cases "truthy (map_of (resourceIdByURL s1) (page_url page))")
    case True
    then obtain i where "map_of (resourceIdByURL s1) (page_url page) = Some i" "i \<noteq> []"
      by (cases "map_of (resourceIdByURL s1) (page_url page)") auto
    with assms sp r1 True ix show ?thesis
      by (auto simp: submit_def)
  next
    case False
    with assms sp r1 show ?thesis
      by (auto simp: submit_def createResource_def updateResource_given_page Let_def
               split: if_splits option.splits)
  qed
qed

theorem submit_id_null_iff_invalid_witness:
  "fst (submit env_unsafe ''userA'' docs_url empty_state) =
     Inr \<lparr>result_id = None, result_status = INVALID\<rparr> \<and>
   ((result_id \<lparr>result_id = None, result_status = INVALID\<rparr> = None) =
    (result_status \<lparr>result_id = None, result_status = INVALID\<rparr> = INVALID))"
proof -
  have r: "fst (submit env_unsafe ''userA'' docs_url empty_state) =
             Inr \<lparr>result_id = None, result_status = INVALID\<rparr>"
    by (simp add: ops scenario)
  then have run: "submit env_unsafe ''userA'' docs_url empty_state =
               (Inr \<lparr>result_id = None, result_status = INVALID\<rparr>,
                snd (submit env_unsafe ''userA'' docs_url empty_state))"
    by (simp add: prod_eq_iff)
  from submit_id_null_iff_invalid[OF run] r show ?thesis by simp
qed

subsection \<open>Views and bookmarks\<close>

lemma getResource_Summary:
  "storage s rid = Some (Summary r) \<Longrightarrow> getResource rid s = Some (Typed r)"
  by (simp add: getResource_def)

lemma getResource_None:
  "storage s rid = None \<Longrightarrow> getResource rid s = None"
  by (simp add: getResource_def)

lemma lookup_resource_Summary:
  "storage s rid = Some (Summary r) \<Longrightarrow> rid \<noteq> [] \<Longrightarrow>
     lookup_resource (Some rid) s = Some (Typed r)"
  by (simp add: lookup_resource_def getResource_Summary)


lemma detached_updateResource:
  "storage (detached (updateResource env r None) s) = (storage s)(id' r \<mapsto> Summary r) \<and>
   PAGE (detached (updateResource env r None) s) = PAGE s \<and>
   resourceIdByURL (detached (updateResource env r None) s) = resourceIdByURL s \<and>
   resourceIdByPackageName (detached (updateResource env r None) s) = resourceIdByPackageName s"
  by (simp add: detached_def updateResource_def updateResourceCache_def storage_put_def
        CONTENT_put_def Let_def split: option.splits)

lemma view_existing:
  assumes "storage s rid = Some (Summary r)" "rid \<noteq> []"
  shows "fst (view env (Some rid) s) = Inr True \<and>
         storage (snd (view env (Some rid) s)) =
           (storage s)(id' r \<mapsto> Summary (r\<lparr>viewCounts := js_plus_one (viewCounts r)\<rparr>))"
  using assms by (simp add: view_def lookup_resource_Summary detached_updateResource)

lemma view_missing:
  "storage s rid = None \<Longrightarrow> view env (Some rid) s = (Inr False, s)"
  by (simp add: view_def lookup_resource_def getResource_None)

lemma view_null: "view env None s = (Inr False, s)"
  by (simp add: view_def lookup_resource_def)

lemma views_count:
  assumes "storage s rid = Some (Summary r)" "id' r = rid" "rid \<noteq> []"
      and "viewCounts r + n \<le> 2 ^ 53"
      and "views env (Some rid) n s = (rs, s')"
  shows "rs = replicate n (Inr True) \<and>
         storage s' = (storage s)(rid \<mapsto> Summary (r\<lparr>viewCounts := viewCounts r + n\<rparr>))"
  using assms
proof (induction n arbitrary: s r rs s')
  case 0
  then show ?case by (simp add: fun_upd_idem)
next
  case (Suc n)
  let ?r1 = "r\<lparr>viewCounts := viewCounts r + 1\<rparr>"
  obtain x s1 where v: "view env (Some rid) s = (x, s1)" by (cases "view env (Some rid) s")
  obtain rs1 s2 where vs: "views env (Some rid) n s1 = (rs1, s2)"
    by (cases "views env (Some rid) n s1")
  from Suc.prems(4) have js: "js_plus_one (viewCounts r) = viewCounts r + 1"
    by (simp add: js_plus_one_def)
  from view_existing[OF Suc.prems(1) Suc.prems(3), of env] v js Suc.prems(2)
  have x: "x = Inr True" and st1: "storage s1 = (storage s)(rid \<mapsto> Summary ?r1)" by simp_all
  have a1: "storage s1 rid = Some (Summary ?r1)" using st1 by simp
  have a2: "id' ?r1 = rid" using Suc.prems(2) by simp
  have a4: "viewCounts ?r1 + n \<le> 2 ^ 53" using Suc.prems(4) by simp
  note ih = Suc.IH[OF a1 a2 Suc.prems(3) a4 vs]
  from Suc.prems(5) v vs have out: "rs = x # rs1" "s' = s2" by simp_all
  from ih have "rs1 = replicate n (Inr True)" by (rule conjunct1)
  moreover from ih have "storage s2 =
      (storage s1)(rid \<mapsto> Summary (?r1\<lparr>viewCounts := viewCounts ?r1 + n\<rparr>))"
    by (rule conjunct2)
  ultimately show ?case using out x st1 by simp
qed

text \<open>
  \<^bold>\<open>C3\<close> (view monotonicity), as the code has it. For a resource stored under its id
  whose counter stays within \<open>2^53\<close>, \<open>n\<close> calls of \<^verbatim>\<open>view\<close> all return \<^verbatim>\<open>true\<close> and
  leave the stored summary with \<open>viewCounts\<close> larger by exactly \<open>n\<close>, and nothing else
  in storage changed. For an id with no stored record, and for \<^verbatim>\<open>null\<close>, \<^verbatim>\<open>view\<close> returns
  \<^verbatim>\<open>false\<close> and the state is the one before.
\<close>

theorem view_counts:
  "(storage s rid = Some (Summary r) \<and> id' r = rid \<and> rid \<noteq> [] \<and>
    viewCounts r + n \<le> 2 ^ 53 \<and> views env (Some rid) n s = (rs, s') \<longrightarrow>
      rs = replicate n (Inr True) \<and>
      storage s' = (storage s)(rid \<mapsto> Summary (r\<lparr>viewCounts := viewCounts r + n\<rparr>))) \<and>
   (storage s missing = None \<longrightarrow> view env (Some missing) s = (Inr False, s)) \<and>
   view env None s = (Inr False, s)"
  using views_count[of s rid r n env rs s'] view_missing[of s missing env] view_null[of env s]
  by blast

theorem view_counts_witness:
  "fst (views env0 (Some ''0123456789AB'') 2 published_state) = [Inr True, Inr True] \<and>
   storage (snd (views env0 (Some ''0123456789AB'') 2 published_state)) ''0123456789AB'' =
     Some (Summary (docs_summary\<lparr>viewCounts := 2\<rparr>)) \<and>
   view env0 (Some ''missing'') published_state = (Inr False, published_state)"
proof -
  let ?v = "views env0 (Some ''0123456789AB'') 2 published_state"
  have a: "storage published_state ''0123456789AB'' = Some (Summary docs_summary) \<and>
           id' docs_summary = ''0123456789AB'' \<and> ''0123456789AB'' \<noteq> [] \<and>
           viewCounts docs_summary + 2 \<le> 2 ^ 53 \<and> ?v = (fst ?v, snd ?v)"
    by (simp add: published_summary) (simp add: docs_summary_def)
  have b: "storage published_state ''missing'' = None"
    by (simp add: published_state_def ops scenario)
  from view_counts[of published_state "''0123456789AB''" docs_summary 2 env0 "fst ?v" "snd ?v"
         "''missing''"] a b
  show ?thesis by (simp add: numeral_2_eq_2 docs_summary_def)
qed

text \<open>
  The claim as stated fails where the double cannot count: a summary whose counter is
  \<open>2^53 = 9007199254740992\<close> (a restore can write one) is viewed, \<^verbatim>\<open>view\<close> returns
  \<^verbatim>\<open>true\<close>, and the counter stored is the same number.
\<close>

theorem view_counts_counterexample:
  "storage saturated_state ''0123456789AB'' =
     Some (Summary (docs_summary\<lparr>viewCounts := 9007199254740992\<rparr>)) \<and>
   fst (view env0 (Some ''0123456789AB'') saturated_state) = Inr True \<and>
   storage (snd (view env0 (Some ''0123456789AB'') saturated_state)) ''0123456789AB'' =
     Some (Summary (docs_summary\<lparr>viewCounts := 9007199254740992\<rparr>)) \<and>
   storage (snd (view env0 (Some ''0123456789AB'') saturated_state)) ''0123456789AB'' \<noteq>
     Some (Summary (docs_summary\<lparr>viewCounts := 9007199254740992 + 1\<rparr>))"
proof -
  have s: "storage saturated_state ''0123456789AB'' =
             Some (Summary (docs_summary\<lparr>viewCounts := 9007199254740992\<rparr>))"
    by (simp add: saturated_state_storage)
  have j: "js_plus_one 9007199254740992 = 9007199254740992"
    by (simp add: js_plus_one_def)
  have ne: "docs_summary\<lparr>viewCounts := 9007199254740992\<rparr> \<noteq>
            docs_summary\<lparr>viewCounts := 9007199254740992 + 1\<rparr>"
    by (simp add: docs_summary_def)
  from view_existing[OF s, of env0] j ne s show ?thesis
    by (simp add: docs_summary_def)
qed


text \<open>The four cases of \<^verbatim>\<open>bookmark\<close> and \<^verbatim>\<open>unbookmark\<close> on a stored resource.\<close>

lemma bookmark_absent:
  assumes "storage s rid = Some (Summary r)" "rid \<noteq> []" "u \<notin> set (bookmarked r)"
  shows "fst (bookmark env u (Some rid) s) = Inr True \<and>
         storage (snd (bookmark env u (Some rid) s)) =
           (storage s)(id' r \<mapsto> Summary (r\<lparr>bookmarked := bookmarked r @ [u]\<rparr>))"
  using assms by (simp add: bookmark_def lookup_resource_Summary detached_updateResource)

lemma bookmark_present:
  assumes "storage s rid = Some (Summary r)" "rid \<noteq> []" "u \<in> set (bookmarked r)"
  shows "bookmark env u (Some rid) s = (Inr True, s)"
  using assms by (simp add: bookmark_def lookup_resource_Summary)

lemma unbookmark_present:
  assumes "storage s rid = Some (Summary r)" "rid \<noteq> []" "u \<in> set (bookmarked r)"
  shows "fst (unbookmark env u (Some rid) s) = Inr True \<and>
         storage (snd (unbookmark env u (Some rid) s)) =
           (storage s)(id' r \<mapsto> Summary (r\<lparr>bookmarked := filter (\<lambda>i. i \<noteq> u) (bookmarked r)\<rparr>))"
  using assms by (simp add: unbookmark_def lookup_resource_Summary detached_updateResource)

lemma unbookmark_absent:
  assumes "storage s rid = Some (Summary r)" "rid \<noteq> []" "u \<notin> set (bookmarked r)"
  shows "unbookmark env u (Some rid) s = (Inr True, s)"
  using assms by (simp add: unbookmark_def lookup_resource_Summary)

lemma count_list_append_one:
  "u \<notin> set xs \<Longrightarrow> count_list (xs @ [u]) u = 1"
  by (induction xs) auto

lemma count_list_distinct:
  "distinct xs \<Longrightarrow> u \<in> set xs \<Longrightarrow> count_list xs u = 1"
  by (induction xs) (auto simp: count_list_0_iff)

lemma bookmark_twice:
  assumes st: "storage s rid = Some (Summary r)" and idr: "id' r = rid" and ne: "rid \<noteq> []"
      and d: "distinct (bookmarked r)"
  shows "fst (bookmark env u (Some rid) s) = Inr True \<and>
         bookmark env u (Some rid) (snd (bookmark env u (Some rid) s)) =
           (Inr True, snd (bookmark env u (Some rid) s)) \<and>
         (\<exists>r'. storage (snd (bookmark env u (Some rid) s)) rid = Some (Summary r') \<and>
               id' r' = rid \<and> count_list (bookmarked r') u = 1 \<and> distinct (bookmarked r') \<and>
               set (bookmarked r') = insert u (set (bookmarked r)))"
proof (cases "u \<in> set (bookmarked r)")
  case True
  note p = bookmark_present[OF st ne True, of env]
  from p st idr d True show ?thesis
    by (auto simp: count_list_distinct)
next
  case False
  let ?r' = "r\<lparr>bookmarked := bookmarked r @ [u]\<rparr>"
  let ?s1 = "snd (bookmark env u (Some rid) s)"
  from bookmark_absent[OF st ne False, of env] idr
  have f: "fst (bookmark env u (Some rid) s) = Inr True"
    and st1: "storage ?s1 rid = Some (Summary ?r')" by simp_all
  have "u \<in> set (bookmarked ?r')" by simp
  from bookmark_present[OF st1 ne this, of env]
  have again: "bookmark env u (Some rid) ?s1 = (Inr True, ?s1)" .
  from f again st1 idr d False show ?thesis
    by (auto simp: count_list_append_one)
qed

text \<open>
  \<^bold>\<open>C4\<close> (bookmark idempotence). For a resource stored under its id whose
  \<open>bookmarked\<close> has no duplicate: \<^verbatim>\<open>bookmark(u, id)\<close> returns \<^verbatim>\<open>true\<close>, a second call
  returns \<^verbatim>\<open>true\<close> and changes nothing, and the stored list then holds \<open>u\<close> exactly
  once (its set is the old one with \<open>u\<close> added). \<^verbatim>\<open>unbookmark(u, id)\<close> with \<open>u\<close> not in
  the list returns \<^verbatim>\<open>true\<close> and the whole state, trace of writes included, is the one
  before. In both operations, when the resulting set equals the stored one there is no
  write; when \<open>u\<close> is in the list, \<^verbatim>\<open>unbookmark\<close> stores the list without it.
\<close>

theorem bookmark_idempotent:
  assumes "storage s rid = Some (Summary r)" and "id' r = rid" and "rid \<noteq> []"
      and "distinct (bookmarked r)"
  shows "fst (bookmark env u (Some rid) s) = Inr True \<and>
         bookmark env u (Some rid) (snd (bookmark env u (Some rid) s)) =
           (Inr True, snd (bookmark env u (Some rid) s)) \<and>
         (\<exists>r'. storage (snd (bookmark env u (Some rid) s)) rid = Some (Summary r') \<and>
               id' r' = rid \<and> count_list (bookmarked r') u = 1 \<and> distinct (bookmarked r') \<and>
               set (bookmarked r') = insert u (set (bookmarked r))) \<and>
         (u \<notin> set (bookmarked r) \<longrightarrow> unbookmark env u (Some rid) s = (Inr True, s)) \<and>
         (insert u (set (bookmarked r)) = set (bookmarked r) \<longrightarrow>
            bookmark env u (Some rid) s = (Inr True, s)) \<and>
         (set (bookmarked r) - {u} = set (bookmarked r) \<longrightarrow>
            unbookmark env u (Some rid) s = (Inr True, s)) \<and>
         (u \<in> set (bookmarked r) \<longrightarrow>
            fst (unbookmark env u (Some rid) s) = Inr True \<and>
            (\<exists>r'. storage (snd (unbookmark env u (Some rid) s)) rid = Some (Summary r') \<and>
                  set (bookmarked r') = set (bookmarked r) - {u} \<and> distinct (bookmarked r')))"
proof -
  note tw = bookmark_twice[OF assms, of env u]
  have ub: "u \<notin> set (bookmarked r) \<longrightarrow> unbookmark env u (Some rid) s = (Inr True, s)"
    using unbookmark_absent[OF assms(1) assms(3), of u env] by blast
  have bk: "insert u (set (bookmarked r)) = set (bookmarked r) \<longrightarrow>
              bookmark env u (Some rid) s = (Inr True, s)"
    using bookmark_present[OF assms(1) assms(3), of u env] by blast
  have ub2: "set (bookmarked r) - {u} = set (bookmarked r) \<longrightarrow>
               unbookmark env u (Some rid) s = (Inr True, s)"
    using unbookmark_absent[OF assms(1) assms(3), of u env] by blast
  have rm: "u \<in> set (bookmarked r) \<longrightarrow>
            fst (unbookmark env u (Some rid) s) = Inr True \<and>
            (\<exists>r'. storage (snd (unbookmark env u (Some rid) s)) rid = Some (Summary r') \<and>
                  set (bookmarked r') = set (bookmarked r) - {u} \<and> distinct (bookmarked r'))"
    using unbookmark_present[OF assms(1) assms(3), of u env] assms(2) assms(4) by auto
  from tw ub bk ub2 rm show ?thesis by blast
qed

theorem bookmark_idempotent_witness:
  "fst (bookmark env0 ''userA'' (Some ''0123456789AB'') published_state) = Inr True \<and>
   storage (snd (bookmark env0 ''userA'' (Some ''0123456789AB'')
              (snd (bookmark env0 ''userA'' (Some ''0123456789AB'') published_state))))
     ''0123456789AB'' = Some (Summary (docs_summary\<lparr>bookmarked := [''userA'']\<rparr>)) \<and>
   unbookmark env0 ''userB'' (Some ''0123456789AB'') published_state =
     (Inr True, published_state)"
proof -
  have a1: "storage published_state ''0123456789AB'' = Some (Summary docs_summary)"
    by (rule published_summary)
  have a2: "id' docs_summary = ''0123456789AB''" by (simp add: docs_summary_def)
  have a3: "''0123456789AB'' \<noteq> []" by simp
  have a4: "distinct (bookmarked docs_summary)" by (simp add: docs_summary_def)
  have a5: "''userB'' \<notin> set (bookmarked docs_summary)" by (simp add: docs_summary_def)
  have a6: "''userA'' \<notin> set (bookmarked docs_summary)" by (simp add: docs_summary_def)
  from bookmark_idempotent[OF a1 a2 a3 a4, of env0 "''userB''"] a5
  have u: "unbookmark env0 ''userB'' (Some ''0123456789AB'') published_state =
             (Inr True, published_state)" by blast
  from bookmark_idempotent[OF a1 a2 a3 a4, of env0 "''userA''"]
  have b: "fst (bookmark env0 ''userA'' (Some ''0123456789AB'') published_state) = Inr True"
    and c: "bookmark env0 ''userA'' (Some ''0123456789AB'')
              (snd (bookmark env0 ''userA'' (Some ''0123456789AB'') published_state)) =
            (Inr True, snd (bookmark env0 ''userA'' (Some ''0123456789AB'') published_state))"
    by blast+
  from bookmark_absent[OF a1 a3 a6, of env0] a2
  have d: "storage (snd (bookmark env0 ''userA'' (Some ''0123456789AB'') published_state))
             ''0123456789AB'' = Some (Summary (docs_summary\<lparr>bookmarked := [''userA'']\<rparr>))"
    by (simp add: docs_summary_def)
  from u b c d show ?thesis by simp
qed

subsection \<open>Refresh and details\<close>

lemma refresh_missing:
  "storage s rid = None \<Longrightarrow> refresh env userId rid s = (Inr False, s)"
  by (simp add: refresh_def getResource_None)

text \<open>The entry \<^verbatim>\<open>updateResourceCache\<close> writes, field by field.\<close>

lemma cache_entry_fields:
  "cache_entry env r page s =
     (\<lparr>id' = id' r, url = url r, bookmarked = bookmarked r, viewCounts = viewCounts r,
       createdAt = createdAt r, createdBy = createdBy r, updatedAt = updatedAt r,
       updatedBy = updatedBy r,
       category = page_category page, author = page_author page, title = page_title page,
       description = page_description page, image' = page_image page,
       video = page_video page, isSafe = page_isSafe page,
       dependencies = page_dependencies page, configs = page_configs page,
       integrations =
         (if page_category page = ''package'' \<or> page_category page = ''repository''
          then getIntegrations env (case page_configs page of None \<Rightarrow> [] | Some c \<Rightarrow> c)
                 (map fst (resourceIdByPackageName s))
                 (case page_dependencies page of None \<Rightarrow> [] | Some d \<Rightarrow> d)
          else getIntegrationsFromPage env page (map fst (resourceIdByPackageName s)))\<rparr>,
      \<lparr>md_id = id' r, md_url = url r, md_category = page_category page,
       md_author = page_author page, md_title = page_title page,
       md_description = map_option (take 80) (page_description page),
       md_viewCounts = viewCounts r, md_bookmarkCounts = length (bookmarked r),
       md_integrations =
         (if page_category page = ''package'' \<or> page_category page = ''repository''
          then getIntegrations env (case page_configs page of None \<Rightarrow> [] | Some c \<Rightarrow> c)
                 (map fst (resourceIdByPackageName s))
                 (case page_dependencies page of None \<Rightarrow> [] | Some d \<Rightarrow> d)
          else getIntegrationsFromPage env page (map fst (resourceIdByPackageName s))),
       md_createdAt = createdAt r\<rparr>)"
  by (simp add: cache_entry_def build_resource_def build_metadata_def page_integrations_def
        Let_def)

lemma cache_entry_PAGE_put: "cache_entry env r p (PAGE_put k v s) = cache_entry env r p s"
  by (simp add: cache_entry_def PAGE_put_def)

lemma refresh_existing:
  assumes st: "storage s rid = Some (Summary r)"
      and sc: "scrapeHTML env (url r) = Inr updatedPage"
      and dt: "getPageDetails env (url r) = Inr pageMetadata"
      and sf: "safe_check env (url r) = Inr safe"
      and pg: "page = refresh_page env r (PAGE s (url r)) (pageMetadata updatedPage) safe"
      and r': "r' = (if url r \<noteq> page_url page
                     then r\<lparr>url := page_url page, updatedAt := now env, updatedBy := userId\<rparr>
                     else r)"
      and s2: "s2 = storage_put (id' r) (Summary r')
                      (if url r \<noteq> page_url page
                       then PAGE_put (url r) page (PAGE_put (page_url page) page s)
                       else PAGE_put (page_url page) page s)"
  shows "refresh env userId rid s =
           (case CONTENT_rejects env (''resources/'' @ id' r) (cache_entry env r' page s) of
              Some e \<Rightarrow> (Inl e, s2)
            | None \<Rightarrow>
                (Inr True,
                 CONTENT_put (''resources/'' @ id' r) (cache_entry env r' page s) s2))"
  using assms
  by (simp add: refresh_def getResource_Summary updateResource_given_page
        cache_entry_PAGE_put Let_def split: option.splits)

text \<open>
  \<^bold>\<open>C7\<close>, as the code has it. \<^verbatim>\<open>refresh\<close> of an id with no stored record returns
  \<^verbatim>\<open>false\<close> and changes nothing. For a stored summary \<open>r\<close>, when the scraper, the page
  details and the safety check return, the page it persists is the scraped page with
  the page details spread over it, the flag of the safety check, \<open>updatedAt = now\<close>,
  and the \<open>createdAt\<close> of the page stored before, or of the summary when there was
  none. The summary \<open>r'\<close> it stores under the id has the \<open>createdAt\<close> of \<open>r\<close> (and its
  id, creator, bookmarks and counter). When the canonical URL of the refreshed page
  differs from \<open>url r\<close>, \<open>r'\<close> has the new URL, \<open>updatedAt = now\<close> and
  \<open>updatedBy = userId\<close>, and the page store holds the refreshed page under both the new
  and the old URL; when it does not differ, \<open>r'\<close> is \<open>r\<close>. The entry for the content
  store is the Resource \<open>res\<close> whose summary fields are those of \<open>r'\<close>, whose other
  fields are those of the refreshed page, and whose integrations are the ones detected
  for that page, with the sidecar \<open>md\<close> made of it. When the content store accepts the
  entry, it holds it under \<^verbatim>\<open>resources/{id}\<close> and \<^verbatim>\<open>refresh\<close> returns \<^verbatim>\<open>true\<close>; when it
  rejects the entry, \<^verbatim>\<open>refresh\<close> throws what the store rejected with, after the page
  and the summary have been written, and the content store is as before.
\<close>

theorem refresh_result:
  assumes "storage s rid = Some (Summary r)"
      and "scrapeHTML env (url r) = Inr updatedPage"
      and "getPageDetails env (url r) = Inr pageMetadata"
      and "(if truthy (GOOGLE_API_KEY env) then checkSafeBrowsingAPI env (url r)
            else Inr True) = Inr safe"
      and "page = (pageMetadata updatedPage)
                    \<lparr>page_isSafe := safe,
                     page_createdAt :=
                       (case PAGE s (url r) of
                          Some p \<Rightarrow> page_createdAt p
                        | None \<Rightarrow> createdAt r),
                     page_updatedAt := now env\<rparr>"
      and "r' = (if url r \<noteq> page_url page
                 then r\<lparr>url := page_url page, updatedAt := now env, updatedBy := userId\<rparr>
                 else r)"
      and "ints =
             (if page_category page = ''package'' \<or> page_category page = ''repository''
              then getIntegrations env (case page_configs page of None \<Rightarrow> [] | Some c \<Rightarrow> c)
                     (map fst (resourceIdByPackageName s))
                     (case page_dependencies page of None \<Rightarrow> [] | Some d \<Rightarrow> d)
              else getIntegrationsFromPage env page (map fst (resourceIdByPackageName s)))"
      and "res =
             \<lparr>id' = id' r, url = url r', bookmarked = bookmarked r,
              viewCounts = viewCounts r, createdAt = createdAt r, createdBy = createdBy r,
              updatedAt = updatedAt r', updatedBy = updatedBy r',
              category = page_category page, author = page_author page,
              title = page_title page, description = page_description page,
              image' = page_image page, video = page_video page, isSafe = safe,
              dependencies = page_dependencies page, configs = page_configs page,
              integrations = ints\<rparr>"
      and "md =
             \<lparr>md_id = id' r, md_url = url r', md_category = page_category page,
              md_author = page_author page, md_title = page_title page,
              md_description = map_option (take 80) (page_description page),
              md_viewCounts = viewCounts r, md_bookmarkCounts = length (bookmarked r),
              md_integrations = ints, md_createdAt = createdAt r\<rparr>"
      and "s' = snd (refresh env userId rid s)"
  shows "(CONTENT_rejects env (''resources/'' @ id' r) (res, md) = None \<longrightarrow>
            fst (refresh env userId rid s) = Inr True \<and>
            CONTENT s' = (CONTENT s)(''resources/'' @ id' r \<mapsto> (res, md))) \<and>
         (CONTENT_rejects env (''resources/'' @ id' r) (res, md) = Some e \<longrightarrow>
            fst (refresh env userId rid s) = Inl e \<and> CONTENT s' = CONTENT s) \<and>
         storage s' = (storage s)(id' r \<mapsto> Summary r') \<and>
         id' r' = id' r \<and> createdAt r' = createdAt r \<and> createdBy r' = createdBy r \<and>
         bookmarked r' = bookmarked r \<and> viewCounts r' = viewCounts r \<and>
         PAGE s' =
           (if url r \<noteq> page_url page
            then (PAGE s)(page_url page \<mapsto> page, url r \<mapsto> page)
            else (PAGE s)(page_url page \<mapsto> page)) \<and>
         (url r \<noteq> page_url page \<longrightarrow>
            url r' = page_url page \<and> updatedAt r' = now env \<and> updatedBy r' = userId) \<and>
         (url r = page_url page \<longrightarrow> r' = r) \<and>
         (storage s missing = None \<longrightarrow> refresh env userId missing s = (Inr False, s))"
proof -
  have sf: "safe_check env (url r) = Inr safe"
    using assms(4) by (simp add: safe_check_def)
  have pg: "page = refresh_page env r (PAGE s (url r)) (pageMetadata updatedPage) safe"
    using assms(5) by (simp add: refresh_page_def)
  have safe: "page_isSafe page = safe" using assms(5) by simp
  have ce: "cache_entry env r' page s = (res, md)"
    using assms(6-9) safe by (simp add: cache_entry_fields)
  note e = refresh_existing[OF assms(1-3) sf pg assms(6) refl]
  have m: "storage s missing = None \<longrightarrow> refresh env userId missing s = (Inr False, s)"
    using refresh_missing[of s missing env userId] by blast
  from e ce assms(10) assms(6) m show ?thesis
    by (cases "CONTENT_rejects env (''resources/'' @ id' r) (res, md)")
       (simp_all add: CONTENT_put_def storage_put_def PAGE_put_def)
qed

theorem refresh_result_witness:
  "fst (refresh env_moved ''userB'' ''0123456789AB'' published_state) = Inr True \<and>
   storage (snd (refresh env_moved ''userB'' ''0123456789AB'' published_state)) ''0123456789AB'' =
     Some (Summary (docs_summary\<lparr>url := ''https://remix.run/docs/en/v1'',
             updatedAt := ''2022-02-02T00:00:00.000Z'', updatedBy := ''userB''\<rparr>)) \<and>
   PAGE (snd (refresh env_moved ''userB'' ''0123456789AB'' published_state))
       ''https://remix.run/docs'' =
     Some (docs_page\<lparr>page_url := ''https://remix.run/docs/en/v1'',
             page_createdAt := ''2022-01-01T00:00:00.000Z'',
             page_updatedAt := ''2022-02-02T00:00:00.000Z''\<rparr>) \<and>
   PAGE (snd (refresh env_moved ''userB'' ''0123456789AB'' published_state))
       ''https://remix.run/docs/en/v1'' =
     Some (docs_page\<lparr>page_url := ''https://remix.run/docs/en/v1'',
             page_createdAt := ''2022-01-01T00:00:00.000Z'',
             page_updatedAt := ''2022-02-02T00:00:00.000Z''\<rparr>) \<and>
   CONTENT (snd (refresh env_moved ''userB'' ''0123456789AB'' published_state))
       ''resources/0123456789AB'' =
     Some (\<lparr>id' = ''0123456789AB'', url = ''https://remix.run/docs/en/v1'',
            bookmarked = [], viewCounts = 0,
            createdAt = ''2022-01-01T00:00:00.001Z'', createdBy = ''userA'',
            updatedAt = ''2022-02-02T00:00:00.000Z'', updatedBy = ''userB'',
            category = ''concepts'', author = None, title = ''Remix Docs'',
            description = Some ''Learn Remix'', image' = None, video = None,
            isSafe = True, dependencies = None, configs = None, integrations = []\<rparr>,
           \<lparr>md_id = ''0123456789AB'', md_url = ''https://remix.run/docs/en/v1'',
            md_category = ''concepts'', md_author = None, md_title = ''Remix Docs'',
            md_description = Some ''Learn Remix'', md_viewCounts = 0,
            md_bookmarkCounts = 0, md_integrations = [],
            md_createdAt = ''2022-01-01T00:00:00.001Z''\<rparr>)"
proof -
  let ?page = "docs_page\<lparr>page_url := ''https://remix.run/docs/en/v1'',
                 page_createdAt := ''2022-01-01T00:00:00.000Z'',
                 page_updatedAt := ''2022-02-02T00:00:00.000Z''\<rparr>"
  let ?r' = "docs_summary\<lparr>url := ''https://remix.run/docs/en/v1'',
               updatedAt := ''2022-02-02T00:00:00.000Z'', updatedBy := ''userB''\<rparr>"
  let ?res = "\<lparr>id' = ''0123456789AB'', url = ''https://remix.run/docs/en/v1'',
            bookmarked = [], viewCounts = 0,
            createdAt = ''2022-01-01T00:00:00.001Z'', createdBy = ''userA'',
            updatedAt = ''2022-02-02T00:00:00.000Z'', updatedBy = ''userB'',
            category = ''concepts'', author = None, title = ''Remix Docs'',
            description = Some ''Learn Remix'', image' = None, video = None,
            isSafe = True, dependencies = None, configs = None, integrations = []\<rparr>"
  let ?md = "\<lparr>md_id = ''0123456789AB'', md_url = ''https://remix.run/docs/en/v1'',
            md_category = ''concepts'', md_author = None, md_title = ''Remix Docs'',
            md_description = Some ''Learn Remix'', md_viewCounts = 0,
            md_bookmarkCounts = 0, md_integrations = [],
            md_createdAt = ''2022-01-01T00:00:00.001Z''\<rparr>"
  have u: "url docs_summary = ''https://remix.run/docs''" by (simp add: docs_summary_def)
  have a1: "storage published_state ''0123456789AB'' = Some (Summary docs_summary)"
    by (rule published_summary)
  have a2: "scrapeHTML env_moved (url docs_summary) =
              Inr (docs_page\<lparr>page_url := ''https://remix.run/docs/en/v1''\<rparr>)"
    by (simp add: env_moved_def env0_def)
  have a3: "getPageDetails env_moved (url docs_summary) = Inr (\<lambda>p. p)"
    by (simp add: env_moved_def env0_def)
  have a4: "(if truthy (GOOGLE_API_KEY env_moved)
             then checkSafeBrowsingAPI env_moved (url docs_summary) else Inr True) = Inr True"
    by (simp add: env_moved_def env0_def)
  have a5: "?page =
              (docs_page\<lparr>page_url := ''https://remix.run/docs/en/v1''\<rparr>)
                \<lparr>page_isSafe := True,
                 page_createdAt :=
                   (case PAGE published_state (url docs_summary) of
                      Some p \<Rightarrow> page_createdAt p
                    | None \<Rightarrow> createdAt docs_summary),
                 page_updatedAt := now env_moved\<rparr>"
    by (simp add: u published_page) (simp add: docs_page_def env_moved_def)
  have a6: "?r' = (if url docs_summary \<noteq> page_url ?page
                   then docs_summary\<lparr>url := page_url ?page, updatedAt := now env_moved,
                          updatedBy := ''userB''\<rparr>
                   else docs_summary)"
    by (simp add: u env_moved_def)
  have a7: "[] =
             (if page_category ?page = ''package'' \<or> page_category ?page = ''repository''
              then getIntegrations env_moved
                     (case page_configs ?page of None \<Rightarrow> [] | Some c \<Rightarrow> c)
                     (map fst (resourceIdByPackageName published_state))
                     (case page_dependencies ?page of None \<Rightarrow> [] | Some d \<Rightarrow> d)
              else getIntegrationsFromPage env_moved ?page
                     (map fst (resourceIdByPackageName published_state)))"
    by (simp add: env_moved_def env0_def)
  have a8: "?res =
             \<lparr>id' = id' docs_summary, url = url ?r', bookmarked = bookmarked docs_summary,
              viewCounts = viewCounts docs_summary, createdAt = createdAt docs_summary,
              createdBy = createdBy docs_summary,
              updatedAt = updatedAt ?r', updatedBy = updatedBy ?r',
              category = page_category ?page, author = page_author ?page,
              title = page_title ?page, description = page_description ?page,
              image' = page_image ?page, video = page_video ?page, isSafe = True,
              dependencies = page_dependencies ?page, configs = page_configs ?page,
              integrations = []\<rparr>"
    by (simp add: docs_summary_def docs_page_def)
  have a9: "?md =
             \<lparr>md_id = id' docs_summary, md_url = url ?r', md_category = page_category ?page,
              md_author = page_author ?page, md_title = page_title ?page,
              md_description = map_option (take 80) (page_description ?page),
              md_viewCounts = viewCounts docs_summary,
              md_bookmarkCounts = length (bookmarked docs_summary),
              md_integrations = [], md_createdAt = createdAt docs_summary\<rparr>"
    by (simp add: docs_summary_def docs_page_def)
  have a10: "CONTENT_rejects env_moved (''resources/'' @ id' docs_summary) (?res, ?md) = None"
    by (simp add: env_moved_def env0_def)
  from refresh_result[OF a1 a2 a3 a4 a5 a6 a7 a8 a9 refl] a10
  show ?thesis
    by (simp add: u) (simp add: docs_summary_def)
qed

text \<open>
  The claim as stated fails where the content store rejects the entry: the refresh of
  the published resource finds a title of 1100 characters, and \<^verbatim>\<open>refresh\<close> throws after
  it has written the page and the summary. The record exists, the answer is not
  \<^verbatim>\<open>true\<close>, and the content store holds the entry it held before.
\<close>

theorem refresh_result_counterexample:
  "storage published_state ''0123456789AB'' = Some (Summary docs_summary) \<and>
   fst (refresh env_titled ''userB'' ''0123456789AB'' published_state) =
     Inl metadata_too_large \<and>
   fst (refresh env_titled ''userB'' ''0123456789AB'' published_state) \<noteq> Inr True \<and>
   CONTENT (snd (refresh env_titled ''userB'' ''0123456789AB'' published_state)) =
     CONTENT published_state \<and>
   PAGE (snd (refresh env_titled ''userB'' ''0123456789AB'' published_state))
       ''https://remix.run/docs'' =
     Some (docs_page\<lparr>page_title := replicate 1100 CHR ''t'',
             page_createdAt := ''2022-01-01T00:00:00.000Z'',
             page_updatedAt := ''2022-01-01T00:00:00.000Z''\<rparr>)"
proof -
  have u: "url docs_summary = ''https://remix.run/docs''" by (simp add: docs_summary_def)
  let ?page = "docs_page\<lparr>page_title := replicate 1100 CHR ''t'',
                 page_createdAt := ''2022-01-01T00:00:00.000Z'',
                 page_updatedAt := ''2022-01-01T00:00:00.000Z''\<rparr>"
  have pg: "?page = refresh_page env_titled docs_summary
                      (PAGE published_state (url docs_summary))
                      (docs_page\<lparr>page_url := url docs_summary,
                         page_title := replicate 1100 CHR ''t''\<rparr>) True"
    by (simp add: refresh_page_def u published_page)
       (simp add: docs_page_def env_titled_def env0_def)
  have rj: "CONTENT_rejects env_titled (''resources/'' @ id' docs_summary)
              (cache_entry env_titled docs_summary ?page published_state) =
            Some metadata_too_large"
    by (simp add: cache_entry_fields env_titled_def env0_def)
  have "refresh env_titled ''userB'' ''0123456789AB'' published_state =
          (Inl metadata_too_large,
           storage_put (id' docs_summary) (Summary docs_summary)
             (PAGE_put (page_url ?page) ?page published_state))"
    using refresh_existing[OF published_summary, of env_titled
            "docs_page\<lparr>page_url := url docs_summary, page_title := replicate 1100 CHR ''t''\<rparr>"
            "\<lambda>p. p" True ?page docs_summary "''userB''", OF _ _ _ pg _ refl] rj
    by (simp add: env_titled_def env0_def safe_check_def u) (simp add: docs_page_def)
  then show ?thesis
    by (simp add: published_summary storage_put_def PAGE_put_def) (simp add: docs_page_def)
qed








text \<open>
  The details of the key of the URL index, on the published state: the index has none
  of the eight fields, and the answer is the empty object with status 200.
\<close>

lemma details_of_index_key:
  "fetch env0 (details_request ''index/URL'') (actor published_state) =
     (\<lparr>status = 200, body = FieldsJson []\<rparr>,
      [LogReport \<lparr>status = 200, body = FieldsJson []\<rparr>],
      actor (untyped_update published_state))"
  by (simp add: fetch_def try_block_def respond_def toUpperCase_def upper_char_def
        details_request_def actor_def getDetails_def lookup_resource_def getResource_def
        published_storage untyped_object_def field_names_def List.map_filter_simps)

subsection \<open>The RPC boundary\<close>

lemma fetch_Inl:
  "try_block env request this = (Inl e, this') \<Longrightarrow>
     fetch env request this =
       (server_error, catch_log request e @ [LogReport server_error], this')"
  by (simp add: fetch_def)

lemma fetch_Inr:
  "try_block env request this = (Inr response, this') \<Longrightarrow>
     fetch env request this = (response, [LogReport response], this')"
  by (simp add: fetch_def)

lemma try_block_no_store:
  "\<not> has_store this \<Longrightarrow> try_block env request this = (Inl (ErrorObj []), this)"
  by (simp add: try_block_def Let_def)

lemma try_block_bad_json:
  assumes "has_store this" "req_json request = Inl e"
      and "(pathname request, toUpperCase (req_method request)) \<in>
             {(''/submit'', ''POST''), (''/refresh'', ''POST''), (''/view'', ''PUT''),
              (''/bookmark'', ''PUT''), (''/bookmark'', ''DELETE''), (''/restore'', ''POST'')}"
  shows "try_block env request this = (Inl e, this)"
  using assms by (auto simp: try_block_def Let_def)

lemma try_block_submit:
  assumes "has_store this" "pathname request = ''/submit''"
      and "toUpperCase (req_method request) = ''POST''" "req_json request = Inr b"
      and "submit env (body_userId b) (body_url b) (state this) = (Inl e, s')"
  shows "try_block env request this = (Inl e, this\<lparr>state := s'\<rparr>)"
  using assms by (simp add: try_block_def Let_def respond_def)

lemma try_block_refresh:
  assumes "has_store this" "pathname request = ''/refresh''"
      and "toUpperCase (req_method request) = ''POST''" "req_json request = Inr b"
      and "body_resourceId b = Some i"
      and "refresh env (body_userId b) i (state this) = (Inl e, s')"
  shows "try_block env request this = (Inl e, this\<lparr>state := s'\<rparr>)"
  using assms by (simp add: try_block_def Let_def respond_def)

text \<open>The four routes that start an update and do not await it.\<close>

lemma try_block_view:
  assumes "has_store this" "pathname request = ''/view''"
      and "toUpperCase (req_method request) = ''PUT''" "req_json request = Inr b"
      and "body_resourceId b = Some rid" "storage (state this) rid = Some (Summary r)"
      and "rid \<noteq> []"
  shows "try_block env request this =
           (Inr ok, this\<lparr>state := detached
              (updateResource env (r\<lparr>viewCounts := js_plus_one (viewCounts r)\<rparr>) None)
              (state this)\<rparr>)"
  using assms
  by (simp add: try_block_def Let_def respond_def view_def lookup_resource_Summary)

lemma try_block_details:
  assumes "has_store this" "pathname request = ''/details''"
      and "toUpperCase (req_method request) = ''GET''"
      and "param_resourceId request = Some rid" "storage (state this) rid = Some (Summary r)"
      and "rid \<noteq> []"
  shows "try_block env request this =
           (Inr \<lparr>status = 200, body = ResourceJson r\<rparr>,
            this\<lparr>state := detached (updateResourceCache env r None) (state this)\<rparr>)"
  using assms
  by (simp add: try_block_def Let_def respond_def getDetails_def lookup_resource_Summary)

lemma detached_updateResource_no_page:
  "PAGE s (url r) = None \<Longrightarrow>
     detached (updateResource env r None) s =
       (storage_put (id' r) (Summary r) s)
         \<lparr>trace := trace s @
            [StoragePut (id' r),
             Unhandled (ErrorObj ''No page data found for the corresponding URL'')]\<rparr>"
  by (simp add: detached_def updateResource_def updateResourceCache_def storage_put_def)

lemma detached_updateResourceCache_no_page:
  "PAGE s (url r) = None \<Longrightarrow>
     detached (updateResourceCache env r None) s =
       s\<lparr>trace := trace s @
            [Unhandled (ErrorObj ''No page data found for the corresponding URL'')]\<rparr>"
  by (simp add: detached_def updateResourceCache_def)

text \<open>
  \<^bold>\<open>C9\<close>, as the code has it. \<^verbatim>\<open>fetch\<close> returns a response for every request (the
  logger taken not to throw). Whatever the \<^verbatim>\<open>try\<close> block throws is caught: the response
  is then \<^verbatim>\<open>Internal Server Error\<close> with status 500, the same for every thrown value,
  and the thrown value is logged, with its message, when it is an \<^verbatim>\<open>Error\<close> and not
  logged otherwise. The block throws when the store is not initialised, when the body
  of a route that reads one is not JSON, and when an awaited method throws (shown for
  \<^verbatim>\<open>submit\<close> and \<^verbatim>\<open>refresh\<close>). What an update that is started and not awaited throws is
  not caught: for \<^verbatim>\<open>/view\<close> and \<^verbatim>\<open>/details\<close> of a stored resource whose page is missing
  the response is the one of success, the log holds that response only, and the
  rejection is left unhandled.
\<close>

theorem fetch_catches:
  "(try_block env request this = (Inl e, this') \<longrightarrow>
      fetch env request this =
        (server_error, catch_log request e @ [LogReport server_error], this')) \<and>
   (\<not> has_store this \<longrightarrow>
      fetch env request this =
        (server_error, catch_log request (ErrorObj []) @ [LogReport server_error], this)) \<and>
   (has_store this \<and> req_json request = Inl e \<and>
    (pathname request, toUpperCase (req_method request)) \<in>
       {(''/submit'', ''POST''), (''/refresh'', ''POST''), (''/view'', ''PUT''),
        (''/bookmark'', ''PUT''), (''/bookmark'', ''DELETE''), (''/restore'', ''POST'')} \<longrightarrow>
      fetch env request this =
        (server_error, catch_log request e @ [LogReport server_error], this)) \<and>
   (has_store this \<and> pathname request = ''/submit'' \<and>
    toUpperCase (req_method request) = ''POST'' \<and> req_json request = Inr b \<and>
    submit env (body_userId b) (body_url b) (state this) = (Inl e, s') \<longrightarrow>
      fetch env request this =
        (server_error, catch_log request e @ [LogReport server_error], this\<lparr>state := s'\<rparr>)) \<and>
   (has_store this \<and> pathname request = ''/refresh'' \<and>
    toUpperCase (req_method request) = ''POST'' \<and> req_json request = Inr b \<and>
    body_resourceId b = Some i \<and>
    refresh env (body_userId b) i (state this) = (Inl e, s') \<longrightarrow>
      fetch env request this =
        (server_error, catch_log request e @ [LogReport server_error], this\<lparr>state := s'\<rparr>)) \<and>
   (try_block env request this = (Inr response, this') \<longrightarrow>
      fetch env request this = (response, [LogReport response], this')) \<and>
   (has_store this \<and> pathname request = ''/view'' \<and>
    toUpperCase (req_method request) = ''PUT'' \<and> req_json request = Inr b \<and>
    body_resourceId b = Some rid \<and> rid \<noteq> [] \<and>
    storage (state this) rid = Some (Summary r) \<and> PAGE (state this) (url r) = None \<longrightarrow>
      fetch env request this =
        (ok, [LogReport ok],
         this\<lparr>state :=
           (storage_put (id' r) (Summary (r\<lparr>viewCounts := js_plus_one (viewCounts r)\<rparr>))
              (state this))
           \<lparr>trace := trace (state this) @
              [StoragePut (id' r),
               Unhandled (ErrorObj ''No page data found for the corresponding URL'')]\<rparr>\<rparr>)) \<and>
   (has_store this \<and> pathname request = ''/details'' \<and>
    toUpperCase (req_method request) = ''GET'' \<and> param_resourceId request = Some rid \<and>
    rid \<noteq> [] \<and>
    storage (state this) rid = Some (Summary r) \<and> PAGE (state this) (url r) = None \<longrightarrow>
      fetch env request this =
        (\<lparr>status = 200, body = ResourceJson r\<rparr>,
         [LogReport \<lparr>status = 200, body = ResourceJson r\<rparr>],
         this\<lparr>state := (state this)
           \<lparr>trace := trace (state this) @
              [Unhandled (ErrorObj ''No page data found for the corresponding URL'')]\<rparr>\<rparr>)) \<and>
   catch_log request (NonError v) = [] \<and>
   catch_log request (ErrorObj message) =
     [LogError (ErrorObj message),
      LogMessage (''ResourcesStore failed while handling fetch - '' @ req_url request
        @ ''; Received message: '' @ message)]"
proof -
  have 1: "try_block env request this = (Inl e, this') \<longrightarrow>
      fetch env request this =
        (server_error, catch_log request e @ [LogReport server_error], this')"
    using fetch_Inl[of env request this e this'] by blast
  have 2: "\<not> has_store this \<longrightarrow>
      fetch env request this =
        (server_error, catch_log request (ErrorObj []) @ [LogReport server_error], this)"
    using fetch_Inl[OF try_block_no_store, of this env request] by blast
  have 3: "has_store this \<and> req_json request = Inl e \<and>
    (pathname request, toUpperCase (req_method request)) \<in>
       {(''/submit'', ''POST''), (''/refresh'', ''POST''), (''/view'', ''PUT''),
        (''/bookmark'', ''PUT''), (''/bookmark'', ''DELETE''), (''/restore'', ''POST'')} \<longrightarrow>
      fetch env request this =
        (server_error, catch_log request e @ [LogReport server_error], this)"
    using fetch_Inl[OF try_block_bad_json, of this request e env] by blast
  have 4: "has_store this \<and> pathname request = ''/submit'' \<and>
    toUpperCase (req_method request) = ''POST'' \<and> req_json request = Inr b \<and>
    submit env (body_userId b) (body_url b) (state this) = (Inl e, s') \<longrightarrow>
      fetch env request this =
        (server_error, catch_log request e @ [LogReport server_error], this\<lparr>state := s'\<rparr>)"
    using fetch_Inl[OF try_block_submit, of this request b env e s'] by blast
  have 5: "has_store this \<and> pathname request = ''/refresh'' \<and>
    toUpperCase (req_method request) = ''POST'' \<and> req_json request = Inr b \<and>
    body_resourceId b = Some i \<and>
    refresh env (body_userId b) i (state this) = (Inl e, s') \<longrightarrow>
      fetch env request this =
        (server_error, catch_log request e @ [LogReport server_error], this\<lparr>state := s'\<rparr>)"
    using fetch_Inl[OF try_block_refresh, of this request b i env e s'] by blast
  have 6: "try_block env request this = (Inr response, this') \<longrightarrow>
      fetch env request this = (response, [LogReport response], this')"
    using fetch_Inr[of env request this response this'] by blast
  have 7: "has_store this \<and> pathname request = ''/view'' \<and>
    toUpperCase (req_method request) = ''PUT'' \<and> req_json request = Inr b \<and>
    body_resourceId b = Some rid \<and> rid \<noteq> [] \<and>
    storage (state this) rid = Some (Summary r) \<and> PAGE (state this) (url r) = None \<longrightarrow>
      fetch env request this =
        (ok, [LogReport ok],
         this\<lparr>state :=
           (storage_put (id' r) (Summary (r\<lparr>viewCounts := js_plus_one (viewCounts r)\<rparr>))
              (state this))
           \<lparr>trace := trace (state this) @
              [StoragePut (id' r),
               Unhandled (ErrorObj ''No page data found for the corresponding URL'')]\<rparr>\<rparr>)"
  proof (intro impI, elim conjE)
    assume h: "has_store this" "pathname request = ''/view''"
      "toUpperCase (req_method request) = ''PUT''" "req_json request = Inr b"
      "body_resourceId b = Some rid" "rid \<noteq> []" "storage (state this) rid = Some (Summary r)"
      "PAGE (state this) (url r) = None"
    let ?r = "r\<lparr>viewCounts := js_plus_one (viewCounts r)\<rparr>"
    from h(8) have "PAGE (state this) (url ?r) = None" by simp
    from detached_updateResource_no_page[OF this, of env]
    have "detached (updateResource env ?r None) (state this) =
            (storage_put (id' r) (Summary ?r) (state this))
              \<lparr>trace := trace (state this) @
                 [StoragePut (id' r),
                  Unhandled (ErrorObj ''No page data found for the corresponding URL'')]\<rparr>"
      by simp
    with fetch_Inr[OF try_block_view[OF h(1-5) h(7) h(6), of env]]
    show "fetch env request this =
        (ok, [LogReport ok],
         this\<lparr>state :=
           (storage_put (id' r) (Summary ?r) (state this))
           \<lparr>trace := trace (state this) @
              [StoragePut (id' r),
               Unhandled (ErrorObj ''No page data found for the corresponding URL'')]\<rparr>\<rparr>)"
      by simp
  qed
  have 8: "has_store this \<and> pathname request = ''/details'' \<and>
    toUpperCase (req_method request) = ''GET'' \<and> param_resourceId request = Some rid \<and>
    rid \<noteq> [] \<and>
    storage (state this) rid = Some (Summary r) \<and> PAGE (state this) (url r) = None \<longrightarrow>
      fetch env request this =
        (\<lparr>status = 200, body = ResourceJson r\<rparr>,
         [LogReport \<lparr>status = 200, body = ResourceJson r\<rparr>],
         this\<lparr>state := (state this)
           \<lparr>trace := trace (state this) @
              [Unhandled (ErrorObj ''No page data found for the corresponding URL'')]\<rparr>\<rparr>)"
  proof (intro impI, elim conjE)
    assume h: "has_store this" "pathname request = ''/details''"
      "toUpperCase (req_method request) = ''GET''" "param_resourceId request = Some rid"
      "rid \<noteq> []" "storage (state this) rid = Some (Summary r)"
      "PAGE (state this) (url r) = None"
    from detached_updateResourceCache_no_page[OF h(7), of env]
      fetch_Inr[OF try_block_details[OF h(1-4) h(6) h(5), of env]]
    show "fetch env request this =
        (\<lparr>status = 200, body = ResourceJson r\<rparr>,
         [LogReport \<lparr>status = 200, body = ResourceJson r\<rparr>],
         this\<lparr>state := (state this)
           \<lparr>trace := trace (state this) @
              [Unhandled (ErrorObj ''No page data found for the corresponding URL'')]\<rparr>\<rparr>)"
      by simp
  qed
  have 9: "catch_log request (NonError v) = [] \<and>
   catch_log request (ErrorObj message) =
     [LogError (ErrorObj message),
      LogMessage (''ResourcesStore failed while handling fetch - '' @ req_url request
        @ ''; Received message: '' @ message)]"
    by (simp add: catch_log_def)
  from 1 2 3 4 5 6 7 8 9 show ?thesis by blast
qed


lemmas routes = fetch_def try_block_def respond_def toUpperCase_def upper_char_def
  server_error_def ok_def not_found_def catch_log_def actor_def view_request_def
  submit_request_def backup_request_def restore_request_def no_payload_def

theorem fetch_catches_witness:
  "fetch env0 submit_request \<lparr>has_store = False, state = empty_state\<rparr> =
     (server_error,
      [LogError (ErrorObj []),
       LogMessage (''ResourcesStore failed while handling fetch - http://resources/submit''
         @ ''; Received message: ''),
       LogReport server_error],
      \<lparr>has_store = False, state = empty_state\<rparr>) \<and>
   fetch env_throwing submit_request (actor empty_state) =
     (server_error, [LogReport server_error], actor empty_state)"
proof -
  let ?b = "no_payload\<lparr>body_url := ''https://remix.run/docs'', body_userId := ''userA''\<rparr>"
  have a: "\<not> has_store \<lparr>has_store = False, state = empty_state\<rparr>" by simp
  have b: "has_store (actor empty_state) \<and> pathname submit_request = ''/submit'' \<and>
           toUpperCase (req_method submit_request) = ''POST'' \<and>
           req_json submit_request = Inr ?b \<and>
           submit env_throwing (body_userId ?b) (body_url ?b) (state (actor empty_state)) =
             (Inl (NonError ''Response 404''), empty_state)"
    by (simp add: actor_def submit_request_def toUpperCase_def upper_char_def no_payload_def
          submit_def submit_page_def env_throwing_def empty_state_def)
  from fetch_catches[of env0 submit_request "\<lparr>has_store = False, state = empty_state\<rparr>"] a
  have 1: "fetch env0 submit_request \<lparr>has_store = False, state = empty_state\<rparr> =
        (server_error, catch_log submit_request (ErrorObj []) @ [LogReport server_error],
         \<lparr>has_store = False, state = empty_state\<rparr>)"
    by blast
  from fetch_catches[of env_throwing submit_request "actor empty_state"
         "NonError ''Response 404''" _ ?b empty_state] b
  have 2: "fetch env_throwing submit_request (actor empty_state) =
        (server_error,
         catch_log submit_request (NonError ''Response 404'') @ [LogReport server_error],
         (actor empty_state)\<lparr>state := empty_state\<rparr>)"
    by blast
  from 1 2 show ?thesis
    by (simp add: catch_log_def submit_request_def actor_def)
qed

text \<open>
  The claim as stated fails twice. A view of a stored resource whose page is missing
  raises \<^verbatim>\<open>No page data found for the corresponding URL\<close> while it is handled; the
  response is \<^verbatim>\<open>OK\<close> and nothing is logged but the response. A scraper that throws a
  value that is not an \<^verbatim>\<open>Error\<close> is answered with the server error, and the thrown
  value is not logged.
\<close>

theorem fetch_catches_counterexample:
  "fst (fetch env0 view_request (actor orphan_state)) = ok \<and>
   fst (fetch env0 view_request (actor orphan_state)) \<noteq> server_error \<and>
   fst (snd (fetch env0 view_request (actor orphan_state))) = [LogReport ok] \<and>
   trace (state (snd (snd (fetch env0 view_request (actor orphan_state))))) =
     trace orphan_state @
       [StoragePut ''0123456789AB'',
        Unhandled (ErrorObj ''No page data found for the corresponding URL'')] \<and>
   fst (snd (fetch env_throwing submit_request (actor empty_state))) =
     [LogReport server_error]"
proof -
  have s: "storage (state (actor orphan_state)) ''0123456789AB'' = Some (Summary docs_summary)"
    by (simp add: actor_def orphan_state_eq published_summary)
  have p: "PAGE (state (actor orphan_state)) (url (docs_summary\<lparr>viewCounts := 1\<rparr>)) = None"
    by (simp add: actor_def orphan_state_eq)
  have j: "js_plus_one (viewCounts docs_summary) = 1"
    by (simp add: js_plus_one_def docs_summary_def)
  have t: "try_block env0 view_request (actor orphan_state) =
             (Inr ok, (actor orphan_state)\<lparr>state := detached
                (updateResource env0 (docs_summary\<lparr>viewCounts := 1\<rparr>) None)
                (state (actor orphan_state))\<rparr>)"
    using try_block_view[of "actor orphan_state" view_request _ "''0123456789AB''"
            docs_summary env0] s j
    by (simp add: actor_def view_request_def toUpperCase_def upper_char_def no_payload_def)
  have v: "fetch env0 view_request (actor orphan_state) =
             (ok, [LogReport ok], (actor orphan_state)\<lparr>state := detached
                (updateResource env0 (docs_summary\<lparr>viewCounts := 1\<rparr>) None)
                (state (actor orphan_state))\<rparr>)"
    by (rule fetch_Inr[OF t])
  have ne: "ok \<noteq> server_error" by (simp add: ok_def server_error_def)
  have f: "fetch env_throwing submit_request (actor empty_state) =
             (server_error, [LogReport server_error], actor empty_state)"
    by (simp add: routes submit_def submit_page_def env_throwing_def empty_state_def)
  from v ne f detached_updateResource_no_page[OF p, of env0] show ?thesis
    by (simp add: storage_put_def actor_def) (simp add: docs_summary_def)
qed

subsection \<open>Backup and restore\<close>

lemma map_add_self: "m ++ m = m"
  by (simp add: map_add_def fun_eq_iff split: option.splits)

lemma fetch_backup:
  assumes "has_store this" "pathname request = ''/backup''"
      and "toUpperCase (req_method request) = ''POST''"
  shows "fetch env request this =
           (\<lparr>status = 200, body = EntriesJson (storage (state this))\<rparr>,
            [LogReport \<lparr>status = 200, body = EntriesJson (storage (state this))\<rparr>], this)"
  using assms by (simp add: fetch_def try_block_def Let_def)

text \<open>
  \<^verbatim>\<open>submit\<close> keeps the stored URL index equal to the one in memory (the generator
  does not return the key of the index).
\<close>

lemma submit_keeps_index_synced:
  assumes "storage_get_index ''index/URL'' s = Inr (resourceIdByURL s)"
      and "generateId env \<noteq> ''index/URL''"
  shows "storage_get_index ''index/URL'' (snd (submit env userId u s)) =
           Inr (resourceIdByURL (snd (submit env userId u s)))"
proof -
  obtain x s1 where sp: "submit_page env u s = (x, s1)" by (cases "submit_page env u s")
  from submit_page_keeps[OF sp] assms(1)
  have s1: "storage_get_index ''index/URL'' s1 = Inr (resourceIdByURL s1)"
    by (simp add: storage_get_index_def)
  show ?thesis
  proof (cases x)
    case (Inl e)
    with sp s1 show ?thesis by (simp add: submit_def)
  next
    case (Inr page)
    with sp s1 assms(2) show ?thesis
      by (auto simp: submit_def createResource_def updateResource_given_page new_summary_id
            Let_def storage_get_index_def storage_put_def CONTENT_put_def
            split: option.splits stored.splits)
  qed
qed

text \<open>
  \<^bold>\<open>C5\<close> (backup/restore round trip), as the code has it. On an initialised actor
  whose two index keys hold indices (or nothing) and whose key space has at most 128
  keys, \<^verbatim>\<open>/backup\<close> answers with the whole key space and changes nothing, and
  \<^verbatim>\<open>/restore\<close> of that answer returns \<^verbatim>\<open>OK\<close> and leaves the key space equal to the one
  before the backup, the page and content stores untouched, and the two in-memory
  indices equal to the indices read from the restored storage. Hence every later
  \<^verbatim>\<open>submit\<close> that resolves its URL to a page whose canonical URL has a non-empty id in
  the stored URL index returns that id with \<open>RESUBMITTED\<close>.
\<close>

theorem backup_restore_roundtrip:
  assumes "has_store this"
      and "storage_get_index ''index/URL'' (state this) = Inr byURL"
      and "storage_get_index ''index/PackageName'' (state this) = Inr byPackageName"
      and "finite (dom (storage (state this)))"
      and "card (dom (storage (state this))) \<le> 128"
      and "pathname backup = ''/backup''" and "toUpperCase (req_method backup) = ''POST''"
      and "fetch env backup this = (response, logs, this1)"
      and "body response = EntriesJson dump"
      and "pathname restore = ''/restore''" and "toUpperCase (req_method restore) = ''POST''"
      and "req_json restore = Inr b" and "body_entries b = dump"
      and "fetch env' restore this1 = (response', logs', this2)"
  shows "status response = 200 \<and> dump = storage (state this) \<and> this1 = this \<and>
         response' = ok \<and> has_store this2 \<and>
         storage (state this2) = storage (state this) \<and>
         resourceIdByURL (state this2) = byURL \<and>
         resourceIdByPackageName (state this2) = byPackageName \<and>
         storage_get_index ''index/URL'' (state this2) = Inr byURL \<and>
         storage_get_index ''index/PackageName'' (state this2) = Inr byPackageName \<and>
         PAGE (state this2) = PAGE (state this) \<and>
         CONTENT (state this2) = CONTENT (state this) \<and>
         (\<forall>env'' userId u page s1 i.
            submit_page env'' u (state this2) = (Inr page, s1) \<and>
            map_of byURL (page_url page) = Some i \<and> i \<noteq> [] \<longrightarrow>
            submit env'' userId u (state this2) =
              (Inr \<lparr>result_id = Some i, result_status = RESUBMITTED\<rparr>, s1))"
proof -
  from fetch_backup[OF assms(1) assms(6) assms(7), of env] assms(8) assms(9)
  have bk: "status response = 200" "dump = storage (state this)" "this1 = this"
    by auto
  let ?s1 = "(state this)\<lparr>storage := storage (state this) ++ body_entries b,
               trace := trace (state this) @ [StoragePutEntries]\<rparr>"
  have pe: "storage_put_entries (body_entries b) (state this) = (Inr (), ?s1)"
    using assms(4) assms(5) bk(2) assms(13) by (simp add: storage_put_entries_accepts)
  have st: "storage ?s1 = storage (state this)"
    using bk(2) assms(13) by (simp add: map_add_self)
  let ?s2 = "?s1\<lparr>resourceIdByURL := byURL, resourceIdByPackageName := byPackageName\<rparr>"
  have crs: "createResourceStore ?s1 = Inr ?s2"
    using createResourceStore_reads[of ?s1 byURL byPackageName]
      storage_get_index_cong[OF st] assms(2) assms(3) by simp
  from fetch_restore[OF assms(1) assms(10) assms(11) assms(12) pe crs, of env'] assms(14) bk(3)
  have rs: "response' = ok" "this2 = this\<lparr>state := ?s2\<rparr>" by auto
  have s2: "state this2 = ?s2" using rs(2) by simp
  have a: "storage (state this2) = storage (state this)" using s2 st by simp
  have b: "resourceIdByURL (state this2) = byURL"
          "resourceIdByPackageName (state this2) = byPackageName"
          "PAGE (state this2) = PAGE (state this)"
          "CONTENT (state this2) = CONTENT (state this)"
    using s2 by simp_all
  have c: "storage_get_index ''index/URL'' (state this2) = Inr byURL"
          "storage_get_index ''index/PackageName'' (state this2) = Inr byPackageName"
    using storage_get_index_cong[OF a] assms(2) assms(3) by simp_all
  have d: "\<forall>env'' userId u page s1 i.
            submit_page env'' u (state this2) = (Inr page, s1) \<and>
            map_of byURL (page_url page) = Some i \<and> i \<noteq> [] \<longrightarrow>
            submit env'' userId u (state this2) =
              (Inr \<lparr>result_id = Some i, result_status = RESUBMITTED\<rparr>, s1)"
    using submit_again b(1) by auto
  from bk rs(1) rs(2) assms(1) a b c d show ?thesis by simp
qed


theorem backup_restore_roundtrip_witness:
  "fst (fetch env0 backup_request (actor published_state)) =
     \<lparr>status = 200, body = EntriesJson (storage published_state)\<rparr> \<and>
   fst (fetch env0 (restore_request (storage published_state)) (actor published_state)) = ok \<and>
   storage (state (snd (snd (fetch env0 (restore_request (storage published_state))
      (actor published_state))))) = storage published_state \<and>
   resourceIdByURL (state (snd (snd (fetch env0 (restore_request (storage published_state))
      (actor published_state))))) = [(''https://remix.run/docs'', ''0123456789AB'')] \<and>
   fst (submit env_unsafe ''userB'' docs_url
      (state (snd (snd (fetch env0 (restore_request (storage published_state))
         (actor published_state)))))) =
     Inr \<lparr>result_id = Some ''0123456789AB'', result_status = RESUBMITTED\<rparr>"
proof -
  let ?act = "actor published_state"
  let ?bk = "fetch env0 backup_request ?act"
  let ?rq = "restore_request (storage published_state)"
  let ?rs = "fetch env0 ?rq ?act"
  let ?s2 = "state (snd (snd ?rs))"
  let ?page = "docs_page\<lparr>page_createdAt := ''2022-01-01T00:00:00.000Z'',
                 page_updatedAt := ''2022-01-01T00:00:00.000Z''\<rparr>"
  have a1: "has_store ?act" by (simp add: actor_def)
  have a2: "storage_get_index ''index/URL'' (state ?act) =
              Inr [(''https://remix.run/docs'', ''0123456789AB'')]"
    by (simp add: actor_def storage_get_index_def published_state_def ops scenario)
  have a3: "storage_get_index ''index/PackageName'' (state ?act) = Inr []"
    by (simp add: actor_def storage_get_index_def published_state_def ops scenario)
  have sm: "finite (dom (storage (state ?act)))" "card (dom (storage (state ?act))) \<le> 128"
    using published_storage_small by (simp_all add: actor_def)
  have a4: "pathname backup_request = ''/backup''" by (simp add: backup_request_def)
  have a5: "toUpperCase (req_method backup_request) = ''POST''"
    by (simp add: backup_request_def toUpperCase_def upper_char_def)
  have a6: "?bk = (\<lparr>status = 200, body = EntriesJson (storage published_state)\<rparr>,
                   fst (snd ?bk), ?act)"
    using fetch_backup[OF a1 a4 a5, of env0] by (simp add: actor_def)
  have a7: "body \<lparr>status = 200, body = EntriesJson (storage published_state)\<rparr> =
              EntriesJson (storage published_state)" by simp
  have a8: "pathname ?rq = ''/restore''" by (simp add: restore_request_def)
  have a9: "toUpperCase (req_method ?rq) = ''POST''"
    by (simp add: restore_request_def toUpperCase_def upper_char_def)
  have a10: "req_json ?rq = Inr (no_payload\<lparr>body_entries := storage published_state\<rparr>)"
    by (simp add: restore_request_def)
  have a11: "body_entries (no_payload\<lparr>body_entries := storage published_state\<rparr>) =
               storage published_state" by simp
  have a12: "?rs = (fst ?rs, fst (snd ?rs), snd (snd ?rs))" by simp
  note rt = backup_restore_roundtrip[OF a1 a2 a3 sm a4 a5 a6 a7 a8 a9 a10 a11 a12]
  have pg: "submit_page env_unsafe docs_url ?s2 = (Inr ?page, ?s2)"
    using rt published_page by (simp add: submit_page_def docs_url_def actor_def)
  have ix: "map_of [(''https://remix.run/docs'', ''0123456789AB'')] (page_url ?page) =
              Some ''0123456789AB'' \<and> ''0123456789AB'' \<noteq> []"
    by (simp add: docs_page_def)
  from rt pg ix
  have "submit env_unsafe ''userB'' docs_url ?s2 =
          (Inr \<lparr>result_id = Some ''0123456789AB'', result_status = RESUBMITTED\<rparr>, ?s2)"
    by blast
  moreover have "fst ?bk = \<lparr>status = 200, body = EntriesJson (storage published_state)\<rparr>"
    using fetch_backup[OF a1 a4 a5, of env0] by (simp add: actor_def)
  moreover from rt have "fst ?rs = ok" by blast
  moreover from rt have "storage ?s2 = storage (state ?act)" by blast
  moreover from rt have "resourceIdByURL ?s2 = [(''https://remix.run/docs'', ''0123456789AB'')]"
    by blast
  moreover have "state ?act = published_state" by (simp add: actor_def)
  ultimately show ?thesis by simp
qed

text \<open>The key space of the actor that holds 128 resources has 129 keys.\<close>

lemma crowd_keys:
  "dom (map_of (map (\<lambda>n. (crowd_id n, f n)) [0..<N])) = crowd_id ` {0..<N}"
  by (simp add: dom_map_of_conv_image_fst image_image)

lemma crowd_card: "card (crowd_id ` {0..<N}) = N"
  by (simp add: card_image inj_on_def crowd_id_def)

lemma dom_if_key:
  "dom (\<lambda>k. if k = a then Some v else m k) = insert a (dom m)"
  by (auto simp: dom_def split: if_splits)

lemma crowded_storage:
  "storage crowded_state =
     (\<lambda>k. if k = ''index/URL'' then Some (Index crowd_index)
          else map_of (map (\<lambda>n. (crowd_id n, Summary (crowd_summary n))) [0..<128]) k)"
  unfolding crowded_state_def by (simp only: State.select_convs)

lemma crowded_card: "card (dom (storage crowded_state)) = 129"
proof -
  have d: "dom (storage crowded_state) = insert ''index/URL'' (crowd_id ` {0..<128})"
    by (simp only: crowded_storage dom_if_key crowd_keys)
  have "''index/URL'' \<notin> crowd_id ` {0..<128}" by (auto simp: crowd_id_def)
  with d show ?thesis by (simp add: crowd_card)
qed

lemma crowded_ix:
  "storage_get_index ''index/URL'' crowded_state = Inr crowd_index \<and>
   storage_get_index ''index/PackageName'' crowded_state = Inr []"
proof -
  have a: "storage crowded_state ''index/URL'' = Some (Index crowd_index)"
    by (simp only: crowded_storage simp_thms if_True)
  have "''index/PackageName'' \<notin> crowd_id ` {0..<128}"
    by (auto simp: crowd_id_def)
  then have "''index/PackageName'' \<notin>
               dom (map_of (map (\<lambda>n. (crowd_id n, Summary (crowd_summary n))) [0..<128]))"
    unfolding crowd_keys .
  then have "map_of (map (\<lambda>n. (crowd_id n, Summary (crowd_summary n))) [0..<128])
               ''index/PackageName'' = None"
    by (simp only: domIff not_not)
  moreover have "''index/PackageName'' \<noteq> ''index/URL''" by simp
  ultimately have b: "storage crowded_state ''index/PackageName'' = None"
    by (simp only: crowded_storage simp_thms if_False)
  from a b show ?thesis by (simp add: storage_get_index_def)
qed

text \<open>
  The claim as stated fails for that actor. It is initialised, its index keys hold
  indices, and \<^verbatim>\<open>/backup\<close> answers with its 129 keys; \<^verbatim>\<open>/restore\<close> of that answer is
  rejected by \<^verbatim>\<open>storage.put\<close>, the response is the server error (on which
  \<^verbatim>\<open>restoreResources\<close> of the facade throws), and the initialisation is not run again.
\<close>

theorem backup_restore_roundtrip_counterexample:
  "has_store (actor crowded_state) \<and>
   storage_get_index ''index/URL'' crowded_state = Inr crowd_index \<and>
   storage_get_index ''index/PackageName'' crowded_state = Inr [] \<and>
   card (dom (storage crowded_state)) = 129 \<and>
   fst (fetch env0 backup_request (actor crowded_state)) =
     \<lparr>status = 200, body = EntriesJson (storage crowded_state)\<rparr> \<and>
   fst (fetch env0 (restore_request (storage crowded_state)) (actor crowded_state)) =
     server_error \<and>
   fst (fetch env0 (restore_request (storage crowded_state)) (actor crowded_state)) \<noteq> ok \<and>
   fst (snd (fetch env0 (restore_request (storage crowded_state)) (actor crowded_state))) =
     [LogError too_many_pairs,
      LogMessage (''ResourcesStore failed while handling fetch - http://resources/restore''
        @ ''; Received message: Maximum number of pairs is 128''),
      LogReport server_error] \<and>
   snd (snd (fetch env0 (restore_request (storage crowded_state)) (actor crowded_state))) =
     actor crowded_state"
proof -
  let ?act = "actor crowded_state"
  let ?rq = "restore_request (storage crowded_state)"
  have a1: "has_store ?act" by (simp add: actor_def)
  have bk: "fst (fetch env0 backup_request ?act) =
              \<lparr>status = 200, body = EntriesJson (storage crowded_state)\<rparr>"
    using fetch_backup[OF a1, of backup_request env0]
    by (simp add: backup_request_def toUpperCase_def upper_char_def actor_def)
  have rj: "storage_put_entries
              (body_entries (no_payload\<lparr>body_entries := storage crowded_state\<rparr>))
              (state ?act) = (Inl too_many_pairs, state ?act)"
    by (rule storage_put_entries_rejects) (simp add: crowded_card)
  have "fetch env0 ?rq ?act =
          (server_error, catch_log ?rq too_many_pairs @ [LogReport server_error],
           ?act\<lparr>state := state ?act\<rparr>)"
    by (rule fetch_restore_rejected[OF a1 _ _ _ rj])
       (simp_all add: restore_request_def toUpperCase_def upper_char_def)
  then have rs: "fetch env0 ?rq ?act =
          (server_error,
           [LogError too_many_pairs,
            LogMessage (''ResourcesStore failed while handling fetch - http://resources/restore''
              @ ''; Received message: Maximum number of pairs is 128''),
            LogReport server_error], ?act)"
    by (simp add: catch_log_def too_many_pairs_def restore_request_def)
  have ne: "server_error \<noteq> ok" by (simp add: ok_def server_error_def)
  from a1 crowded_ix crowded_card bk rs ne show ?thesis by simp
qed

subsection \<open>The metadata sidecar\<close>

text \<open>
  \<^verbatim>\<open>updateResourceCache\<close> is the only writer of the content store; each method and
  each route writes through it.
\<close>

lemma ws_same: "CONTENT s' = CONTENT s \<Longrightarrow> writes_sidecars s s'"
  by (simp add: writes_sidecars_def)

lemma ws_trans:
  "writes_sidecars a b \<Longrightarrow> writes_sidecars b c \<Longrightarrow> writes_sidecars a c"
  unfolding writes_sidecars_def by metis

lemma ws_updateResourceCache:
  "writes_sidecars s (snd (updateResourceCache env r p s))"
  by (auto simp: writes_sidecars_def updateResourceCache_def cache_entry_def CONTENT_put_def
        Let_def split: option.splits)

lemma ws_untyped_update: "writes_sidecars s (untyped_update s)"
  by (simp add: untyped_update_def ws_same)

lemma ws_updateResource:
  "writes_sidecars s (snd (updateResource env r p s))"
proof -
  have "writes_sidecars s (storage_put (id' r) (Summary r) s)"
    by (simp add: ws_same storage_put_def)
  from ws_trans[OF this ws_updateResourceCache] show ?thesis
    by (simp add: updateResource_def)
qed

lemma ws_detached:
  "writes_sidecars s (snd (task s)) \<Longrightarrow> writes_sidecars s (detached task s)"
  by (cases "task s") (auto simp: detached_def writes_sidecars_def split: sum.splits)

lemma ws_createResource:
  "writes_sidecars s (snd (createResource env page userId s))"
proof (cases "page_isSafe page")
  case False
  then show ?thesis by (simp add: createResource_def ws_same)
next
  case True
  let ?r = "new_summary env page userId"
  obtain x s1 where u: "updateResource env ?r (Some page) s = (x, s1)"
    by (cases "updateResource env ?r (Some page) s")
  from ws_updateResource[of s env ?r "Some page"] u have w: "writes_sidecars s s1" by simp
  have "CONTENT (snd (createResource env page userId s)) = CONTENT s1"
    using True u by (cases x) (simp_all add: createResource_def storage_put_def Let_def)
  with w show ?thesis by (simp add: writes_sidecars_def)
qed

lemma ws_submit: "writes_sidecars s (snd (submit env userId u s))"
proof -
  obtain x s1 where sp: "submit_page env u s = (x, s1)" by (cases "submit_page env u s")
  from submit_page_keeps[OF sp] have w1: "writes_sidecars s s1" by (simp add: ws_same)
  show ?thesis
  proof (cases x)
    case (Inl e)
    with sp w1 show ?thesis by (simp add: submit_def)
  next
    case (Inr page)
    obtain y s2 where cr: "createResource env page userId s1 = (y, s2)"
      by (cases "createResource env page userId s1")
    from ws_createResource[of s1 env page userId] cr have w2: "writes_sidecars s1 s2" by simp
    have "CONTENT (snd (submit env userId u s)) = CONTENT s1 \<or>
          CONTENT (snd (submit env userId u s)) = CONTENT s2"
      using sp Inr cr
      by (cases y) (auto simp: submit_def storage_put_def Let_def split: option.splits)
    with ws_trans[OF w1 w2] w1 show ?thesis by (auto simp: writes_sidecars_def)
  qed
qed

lemma ws_refresh: "writes_sidecars s (snd (refresh env userId rid s))"
  by (auto simp: refresh_def getResource_def updateResource_given_page writes_sidecars_def
        cache_entry_def untyped_update_def
        CONTENT_put_def storage_put_def PAGE_put_def Let_def
        split: sum.splits option.splits stored.splits)

lemma ws_getDetails: "writes_sidecars s (snd (getDetails env rid s))"
  by (auto simp: getDetails_def ws_same ws_detached ws_updateResourceCache ws_untyped_update
        split: sum.splits option.splits fetched.splits)

lemma ws_view: "writes_sidecars s (snd (view env rid s))"
  by (auto simp: view_def ws_same ws_detached ws_updateResource ws_untyped_update
        split: sum.splits option.splits fetched.splits)

lemma ws_bookmark: "writes_sidecars s (snd (bookmark env u rid s))"
  by (auto simp: bookmark_def ws_same ws_detached ws_updateResource ws_untyped_update Let_def
        split: sum.splits option.splits fetched.splits)

lemma ws_unbookmark: "writes_sidecars s (snd (unbookmark env u rid s))"
  by (auto simp: unbookmark_def ws_same ws_detached ws_updateResource ws_untyped_update
        Let_def split: sum.splits option.splits fetched.splits)

lemma ws_respond:
  "writes_sidecars (state this) (snd r) \<Longrightarrow>
     writes_sidecars (state this) (state (snd (respond this f r)))"
  by (cases r) (auto simp: respond_def split: sum.splits)

lemma ws_restore:
  "writes_sidecars (state this)
     (state (snd (case storage_put_entries d (state this) of
                    (Inl e, s1) \<Rightarrow> (Inl e, this\<lparr>state := s1\<rparr>)
                  | (Inr u, s1) \<Rightarrow>
                      (case createResourceStore s1 of
                         Inl e \<Rightarrow> (Inl e, this\<lparr>state := s1\<rparr>)
                       | Inr s2 \<Rightarrow> (Inr ok, this\<lparr>state := s2\<rparr>)))))"
  by (auto simp: createResourceStore_def storage_put_entries_def ws_same
        split: sum.splits)

lemma ws_try_block:
  "writes_sidecars (state this) (state (snd (try_block env request this)))"
  unfolding try_block_def Let_def
  by (auto simp: ws_same ws_respond ws_submit ws_refresh ws_getDetails ws_view ws_bookmark
        ws_unbookmark ws_restore
        split: sum.splits option.splits)

lemma fetch_state:
  "state (snd (snd (fetch env request this))) = state (snd (try_block env request this))"
  by (cases "try_block env request this") (auto simp: fetch_def split: sum.splits)

text \<open>
  \<^bold>\<open>C8\<close>. Whatever the request, an entry that the content store holds after \<^verbatim>\<open>fetch\<close>
  and did not hold before is a Resource with the sidecar computed from that Resource
  alone (\<open>build_metadata\<close>): its description is the first 80 characters of the
  Resource's description, so at most 80 long, and its \<open>bookmarkCounts\<close> is the length
  of the Resource's \<open>bookmarked\<close>.
\<close>

theorem sidecar_from_resource:
  assumes "fetch env request this = (response, logs, this')"
      and "CONTENT (state this') k = Some (resource, metadata)"
      and "CONTENT (state this) k \<noteq> Some (resource, metadata)"
  shows "metadata = build_metadata resource \<and>
         md_description metadata = map_option (take 80) (description resource) \<and>
         (\<forall>d. md_description metadata = Some d \<longrightarrow> length d \<le> 80) \<and>
         md_bookmarkCounts metadata = length (bookmarked resource)"
proof -
  from assms(1) fetch_state[of env request this]
  have "state this' = state (snd (try_block env request this))" by simp
  with ws_try_block[of this env request] have "writes_sidecars (state this) (state this')"
    by simp
  then have "CONTENT (state this') k = CONTENT (state this) k \<or>
             (\<exists>r. CONTENT (state this') k = Some (r, build_metadata r))"
    by (simp add: writes_sidecars_def)
  with assms(2) assms(3) have m: "metadata = build_metadata resource"
    by auto
  then show ?thesis by (auto simp: build_metadata_def)
qed

theorem sidecar_from_resource_witness:
  "CONTENT (state (snd (snd (fetch env_long submit_request (actor empty_state)))))
       ''resources/0123456789AB'' =
     Some (build_resource docs_summary
             (docs_page\<lparr>page_description := Some (replicate 100 CHR ''x''),
                page_createdAt := ''2022-01-01T00:00:00.000Z'',
                page_updatedAt := ''2022-01-01T00:00:00.000Z''\<rparr>) [],
           build_metadata (build_resource docs_summary
             (docs_page\<lparr>page_description := Some (replicate 100 CHR ''x''),
                page_createdAt := ''2022-01-01T00:00:00.000Z'',
                page_updatedAt := ''2022-01-01T00:00:00.000Z''\<rparr>) [])) \<and>
   md_description (build_metadata (build_resource docs_summary
             (docs_page\<lparr>page_description := Some (replicate 100 CHR ''x''),
                page_createdAt := ''2022-01-01T00:00:00.000Z'',
                page_updatedAt := ''2022-01-01T00:00:00.000Z''\<rparr>) [])) =
     Some (replicate 80 CHR ''x'') \<and>
   md_bookmarkCounts (build_metadata (build_resource docs_summary
             (docs_page\<lparr>page_description := Some (replicate 100 CHR ''x''),
                page_createdAt := ''2022-01-01T00:00:00.000Z'',
                page_updatedAt := ''2022-01-01T00:00:00.000Z''\<rparr>) [])) = 0"
proof -
  let ?f = "fetch env_long submit_request (actor empty_state)"
  let ?page = "docs_page\<lparr>page_description := Some (replicate 100 CHR ''x''),
                 page_createdAt := ''2022-01-01T00:00:00.000Z'',
                 page_updatedAt := ''2022-01-01T00:00:00.000Z''\<rparr>"
  let ?res = "build_resource docs_summary ?page []"
  have c: "CONTENT (state (snd (snd ?f))) ''resources/0123456789AB'' =
             Some (?res, build_metadata ?res)"
    by (simp add: routes ops scenario env_long_def docs_summary_def)
  have a1: "?f = (fst ?f, fst (snd ?f), snd (snd ?f))" by simp
  have a3: "CONTENT (state (actor empty_state)) ''resources/0123456789AB'' \<noteq>
              Some (?res, build_metadata ?res)"
    by (simp add: actor_def empty_state_def)
  from sidecar_from_resource[OF a1 c a3]
  have "md_description (build_metadata ?res) = map_option (take 80) (description ?res)"
    and "md_bookmarkCounts (build_metadata ?res) = length (bookmarked ?res)"
    by blast+
  with c show ?thesis
    by (simp add: build_resource_def docs_summary_def)
qed

end
